theory Spec2Isabelle
  imports Main
begin

section \<open>JavaScript values\<close>

text \<open>
  The program is \<^verbatim>\<open>src/xmlexact.js\<close>. Its values are JavaScript values; the model
  keeps the ones the file creates and reads: \<^verbatim>\<open>undefined\<close>, \<^verbatim>\<open>null\<close>, booleans,
  numbers, strings, arrays, plain objects and the Buffers that \<^verbatim>\<open>Buffer.from\<close> returns.
  A plain object is the list of its own properties in insertion order, each key once.
  Strings are lists of 8-bit code units. Integer-like keys, which JavaScript enumerates
  first, are outside the model. The properties that every object inherits
  (\<^verbatim>\<open>constructor\<close>, \<^verbatim>\<open>toString\<close>, \<^verbatim>\<open>__proto__\<close>, ...) are read by \<open>member\<close>,
  where the program looks a name of the caller's choice up in an object.

  Numbers: \<open>IntNum n\<close> is the number with the integer value \<open>n\<close>, which the host
  holds exactly for \<open>\<bar>n\<bar> \<le> 2^53\<close> (\<open>IntNum 0\<close> stands for both zeros), and
  \<open>MAX_VALUE\<close> is \<^verbatim>\<open>Number.MAX_VALUE\<close>. The other doubles (fractions, integers that
  the host rounds, the infinities) are not values of the model: a step that produces one
  ends in \<open>OutsideModel\<close>. \<open>JBuffer enc s\<close> stands for the Buffer that
  \<^verbatim>\<open>Buffer.from(s, enc)\<close> returns.
\<close>

datatype jsnum = NaN | IntNum int | MAX_VALUE

datatype jsval =
    JUndefined
  | JNull
  | JBool bool
  | JNum jsnum
  | JStr string
  | JArr "jsval list"
  | JObj "(string \<times> jsval) list"
  | JBuffer string string

text \<open>Every \<^verbatim>\<open>throw\<close> of the file and every host exception it can run into is a
  constructor of \<open>error\<close>; a function that can throw returns \<open>error + 'a\<close>.\<close>

datatype error =
    TypeError                         \<comment> \<open>host: a property or method of a value that has none\<close>
  | RangeError                        \<comment> \<open>host: invalid array length or repeat count\<close>
  | StackOverflow                     \<comment> \<open>host: the recursion did not end\<close>
  | MalformedXml                      \<comment> \<open>'There are errors in your xml file: ...'\<close>
  | UnknownDefinitionType jsval       \<comment> \<open>"Unknown type '...'" of generateDefinition\<close>
  | UnknownXsdType jsval              \<comment> \<open>"Unknown XSD type '...'"\<close>
  | NoAliasForTargetNamespace jsval   \<comment> \<open>"Unable to find alias for target namespace: '...'"\<close>
  | UnknownSimpleTypeStructure        \<comment> \<open>'Unknown simpleType structure'\<close>
  | UnknownElementStructure           \<comment> \<open>'Unknown element structure'\<close>
  | TypeNestedMoreThan3Levels         \<comment> \<open>'Type reference nested more than 3 levels'\<close>
  | CouldNotFindType string jsval     \<comment> \<open>"Could not find type '...' in namespace '...'"\<close>
  | UnknownComplexTypeSequence        \<comment> \<open>'Unknown complexType sequence structure'\<close>
  | CouldNotFindNamespaceAlias string \<comment> \<open>"Could not find namespace alias '...'"\<close>
  | OutsideModel                      \<comment> \<open>no JavaScript error: the step is not modelled\<close>

definition truthy :: "jsval \<Rightarrow> bool" where
  "truthy v =
     (case v of
        JUndefined \<Rightarrow> False
      | JNull \<Rightarrow> False
      | JBool b \<Rightarrow> b
      | JNum n \<Rightarrow> (case n of NaN \<Rightarrow> False | IntNum i \<Rightarrow> i \<noteq> 0 | _ \<Rightarrow> True)
      | JStr s \<Rightarrow> s \<noteq> []
      | _ \<Rightarrow> True)"

definition isArray :: "jsval \<Rightarrow> bool" where
  "isArray v = (case v of JArr _ \<Rightarrow> True | _ \<Rightarrow> False)"

definition isString :: "jsval \<Rightarrow> bool" where
  "isString v = (case v of JStr _ \<Rightarrow> True | _ \<Rightarrow> False)"

text \<open>\<^verbatim>\<open>typeof v === 'object'\<close>: true of \<^verbatim>\<open>null\<close>, arrays, objects and Buffers.\<close>

definition typeofObject :: "jsval \<Rightarrow> bool" where
  "typeofObject v =
     (case v of JNull \<Rightarrow> True | JArr _ \<Rightarrow> True | JObj _ \<Rightarrow> True | JBuffer _ _ \<Rightarrow> True
      | _ \<Rightarrow> False)"

subsection \<open>Strings\<close>

text \<open>The characters the regular expression class \<^verbatim>\<open>\s\<close>, \<^verbatim>\<open>trim\<close> and the
  leading-blank rule of \<^verbatim>\<open>parseInt\<close> accept, among 8-bit code units: tab, line feed,
  vertical tab, form feed, carriage return, space and no-break space.\<close>

definition isWhite :: "char \<Rightarrow> bool" where
  "isWhite c = (c \<in> set [CHR 0x09, CHR 0x0A, CHR 0x0B, CHR 0x0C, CHR 0x0D, CHR 0x20, CHR 0xA0])"

definition trim :: "string \<Rightarrow> string" where
  "trim s = rev (dropWhile isWhite (rev (dropWhile isWhite s)))"

definition endsWith :: "string \<Rightarrow> string \<Rightarrow> bool" where
  "endsWith s suffix = (length suffix \<le> length s \<and> drop (length s - length suffix) s = suffix)"

definition startsWith :: "string \<Rightarrow> string \<Rightarrow> bool" where
  "startsWith s pre = (take (length pre) s = pre)"

definition digitValue :: "char \<Rightarrow> int option" where
  "digitValue c = map_of (zip ''0123456789'' [0, 1, 2, 3, 4, 5, 6, 7, 8, 9]) c"

definition isDigit :: "char \<Rightarrow> bool" where
  "isDigit c = (digitValue c \<noteq> None)"

text \<open>The value of a run of decimal digits, most significant first.\<close>

fun digitsValue :: "int \<Rightarrow> string \<Rightarrow> int" where
  "digitsValue acc [] = acc"
| "digitsValue acc (c # cs) = digitsValue (10 * acc + the (digitValue c)) cs"

text \<open>\<^verbatim>\<open>parseInt(text, 10)\<close>: leading blanks are skipped, one sign is read, then the
  longest run of digits; no digit gives \<^verbatim>\<open>NaN\<close>, and whatever follows the digits is
  ignored.\<close>

definition parseIntString :: "string \<Rightarrow> jsnum" where
  "parseIntString s =
     (let t = dropWhile isWhite s;
          neg = (t \<noteq> [] \<and> hd t = CHR ''-'');
          u = (if t \<noteq> [] \<and> (hd t = CHR ''-'' \<or> hd t = CHR ''+'') then tl t else t);
          ds = takeWhile isDigit u
      in if ds = [] then NaN
         else IntNum (if neg then - digitsValue 0 ds else digitsValue 0 ds))"

text \<open>A number that \<^verbatim>\<open>parseInt\<close> or \<^verbatim>\<open>parseFloat\<close> read: beyond \<open>2^53\<close> the host
  rounds the integer to a double, which the model does not compute.\<close>

definition hostNumber :: "jsnum \<Rightarrow> error + jsnum" where
  "hostNumber n =
     (case n of
        IntNum i \<Rightarrow> if \<bar>i\<bar> \<le> 2 ^ 53 then Inr n else Inl OutsideModel
      | _ \<Rightarrow> Inr n)"

text \<open>\<^verbatim>\<open>parseFloat(text)\<close>: leading blanks are skipped, then the longest prefix that
  is a decimal literal is read: a sign, digits, a point with digits, an exponent that
  has a digit; no digit before the exponent gives \<^verbatim>\<open>NaN\<close>, and whatever follows the
  literal is ignored. The model computes the value of a literal that has no exponent
  and only zeros after the point; \<^verbatim>\<open>Infinity\<close>, fractions and exponents are outside
  it.\<close>

definition parseFloatString :: "string \<Rightarrow> error + jsnum" where
  "parseFloatString s =
     (let t = dropWhile isWhite s;
          neg = (t \<noteq> [] \<and> hd t = CHR ''-'');
          u = (if t \<noteq> [] \<and> (hd t = CHR ''-'' \<or> hd t = CHR ''+'') then tl t else t);
          ds = takeWhile isDigit u;
          rest = dropWhile isDigit u;
          point = (rest \<noteq> [] \<and> hd rest = CHR ''.'');
          fs = (if point then takeWhile isDigit (tl rest) else []);
          after = (if point then dropWhile isDigit (tl rest) else rest);
          power = (if after \<noteq> [] \<and> (hd after = CHR ''e'' \<or> hd after = CHR ''E'')
                   then tl after else []);
          digits = (if power \<noteq> [] \<and> (hd power = CHR ''-'' \<or> hd power = CHR ''+'')
                    then tl power else power);
          exponent = (digits \<noteq> [] \<and> isDigit (hd digits))
      in if take 8 u = ''Infinity'' then Inl OutsideModel
         else if ds = [] \<and> fs = [] then Inr NaN
         else if exponent \<or> \<not> list_all (\<lambda>c. c = CHR ''0'') fs then Inl OutsideModel
         else hostNumber (IntNum (if neg then - digitsValue 0 ds else digitsValue 0 ds)))"

section \<open>Value coercion\<close>

text \<open>
  \<^verbatim>\<open>_convertFromXsdType(type, value)\<close> (lines 325-366). Every caller passes a string
  as \<^verbatim>\<open>value\<close>. \<^verbatim>\<open>type.endsWith\<close> exists on strings only: a truthy \<^verbatim>\<open>type\<close>
  that is no string makes the host throw a TypeError.
\<close>

definition floatTypes :: "string list" where
  "floatTypes = [''decimal'', ''double'', ''float'']"

definition integerTypes :: "string list" where
  "integerTypes =
     [''byte'', ''int'', ''integer'', ''long'', ''negativeInteger'', ''nonNegativeInteger'',
      ''nonPositiveInteger'', ''short'', ''unsignedByte'', ''unsignedInt'', ''unsignedLong'',
      ''unsignedShort'']"

definition convertFromXsdType :: "jsval \<Rightarrow> string \<Rightarrow> error + jsval" where
  "convertFromXsdType type0 value =
     (let type1 = (case type0 of
                     JArr ts \<Rightarrow> (case ts of [] \<Rightarrow> JUndefined | t # _ \<Rightarrow> t)
                   | _ \<Rightarrow> type0)
      in if truthy type1 \<and> \<not> isString type1 then Inl TypeError
         else
           let nullable = (case type1 of JStr s \<Rightarrow> endsWith s ''?'' | _ \<Rightarrow> False);
               type2 = (case type1 of
                          JStr s \<Rightarrow> if nullable then JStr (butlast s) else type1
                        | _ \<Rightarrow> type1)
           in if nullable \<and> list_all isWhite value then Inr JNull
              else if type2 = JStr ''boolean'' then Inr (JBool (value = ''true''))
              else if type2 \<in> set (map JStr floatTypes) then
                (case parseFloatString value of Inl e \<Rightarrow> Inl e | Inr n \<Rightarrow> Inr (JNum n))
              else if type2 \<in> set (map JStr integerTypes) then
                (case hostNumber (parseIntString value) of
                   Inl e \<Rightarrow> Inl e
                 | Inr n \<Rightarrow> Inr (JNum n))
              else if type2 = JStr ''base64Binary'' then Inr (JBuffer ''base64'' value)
              else if type2 = JStr ''hexBinary'' then Inr (JBuffer ''hex'' value)
              else Inr (JStr value))"

text \<open>\<^verbatim>\<open>_xsdTypeLookup(type)\<close> (lines 368-424): the table from a primitive type name
  to its kind.\<close>

definition xsdTypeLookup :: "jsval \<Rightarrow> error + string" where
  "xsdTypeLookup type =
     (if type = JStr ''boolean'' then Inr ''boolean''
      else if type \<in> set (map JStr [''base64Binary'', ''hexBinary'', ''anyURI'', ''language'',
                ''normalizedString'', ''string'', ''token'']) then Inr ''string''
      else if type \<in> set (map JStr [''byte'', ''decimal'', ''double'', ''float'', ''int'',
                ''integer'', ''long'', ''negativeInteger'', ''nonNegativeInteger'',
                ''nonPositiveInteger'', ''short'', ''unsignedByte'', ''unsignedInt'',
                ''unsignedLong'', ''unsignedShort'']) then Inr ''number''
      else if type = JStr ''empty'' then Inr ''empty''
      else if type = JStr ''any'' then Inr ''any''
      else Inl (UnknownXsdType type))"

text \<open>The type name without its nullable marker, as \<^verbatim>\<open>type.slice(0, -1)\<close> leaves it.\<close>

definition stripNullable :: "string \<Rightarrow> string" where
  "stripNullable t = (if endsWith t ''?'' then butlast t else t)"

subsection \<open>Decimal text of integers\<close>

definition digitChar :: "nat \<Rightarrow> char" where
  "digitChar d = ''0123456789'' ! d"

function showNat :: "nat \<Rightarrow> string" where
  "showNat n = (if n < 10 then [digitChar n] else showNat (n div 10) @ [digitChar (n mod 10)])"
  by pat_completeness auto
termination
  by (relation "measure id") auto

declare showNat.simps [simp del]

definition showInt :: "int \<Rightarrow> string" where
  "showInt n = (if n < 0 then CHR ''-'' # showNat (nat (- n)) else showNat (nat n))"

subsection \<open>Objects\<close>

text \<open>The own properties of a plain object: \<^verbatim>\<open>o[k]\<close> where only an own property can
  be found, whether \<open>k\<close> is an own property, \<^verbatim>\<open>o[k] = v\<close> for a key other than
  \<^verbatim>\<open>__proto__\<close>, and \<^verbatim>\<open>delete o[k]\<close>. An assignment to a key the object has keeps the
  key's place; a new key goes last.\<close>

definition getProp :: "(string \<times> jsval) list \<Rightarrow> string \<Rightarrow> jsval" where
  "getProp fs k = (case map_of fs k of None \<Rightarrow> JUndefined | Some v \<Rightarrow> v)"

definition hasOwnProperty :: "(string \<times> 'v) list \<Rightarrow> string \<Rightarrow> bool" where
  "hasOwnProperty fs k = (map_of fs k \<noteq> None)"

fun setProp :: "(string \<times> 'v) list \<Rightarrow> string \<Rightarrow> 'v \<Rightarrow> (string \<times> 'v) list" where
  "setProp [] k v = [(k, v)]"
| "setProp (f # fs) k v = (if fst f = k then (k, v) # fs else f # setProp fs k v)"

definition deleteProp :: "(string \<times> 'v) list \<Rightarrow> string \<Rightarrow> (string \<times> 'v) list" where
  "deleteProp fs k = filter (\<lambda>f. fst f \<noteq> k) fs"

text \<open>The names of the properties that a plain object inherits from
  \<^verbatim>\<open>Object.prototype\<close>: eleven functions, and the accessor \<^verbatim>\<open>__proto__\<close>, whose
  value is \<^verbatim>\<open>Object.prototype\<close> itself.\<close>

definition objectPrototype :: "string list" where
  "objectPrototype =
     [''constructor'', ''__defineGetter__'', ''__defineSetter__'', ''hasOwnProperty'',
      ''__lookupGetter__'', ''__lookupSetter__'', ''isPrototypeOf'', ''propertyIsEnumerable'',
      ''toString'', ''valueOf'', ''__proto__'', ''toLocaleString'']"

text \<open>\<^verbatim>\<open>o[k]\<close> with the inherited properties: the object's own value, the inherited
  member of that name, or \<^verbatim>\<open>undefined\<close>.\<close>

datatype 'v member = Own 'v | Inherited string | Missing

definition member :: "(string \<times> 'v) list \<Rightarrow> string \<Rightarrow> 'v member" where
  "member fs k =
     (case map_of fs k of
        Some v \<Rightarrow> Own v
      | None \<Rightarrow> if k \<in> set objectPrototype then Inherited k else Missing)"

text \<open>\<^verbatim>\<open>o[k] = v\<close> for a value \<open>v\<close> that is no object, on an object that the program
  made as \<^verbatim>\<open>{}\<close>: under the key \<^verbatim>\<open>__proto__\<close> the inherited setter runs, which
  ignores such a value.\<close>

definition assign :: "(string \<times> 'v) list \<Rightarrow> string \<Rightarrow> 'v \<Rightarrow> (string \<times> 'v) list" where
  "assign fs k v = (if k = ''__proto__'' then fs else setProp fs k v)"

text \<open>The call \<^verbatim>\<open>o.hasOwnProperty(k)\<close>: an own property \<^verbatim>\<open>hasOwnProperty\<close> hides the
  inherited function, and no value of the model can be called.\<close>

definition ownProperty :: "(string \<times> jsval) list \<Rightarrow> string \<Rightarrow> error + bool" where
  "ownProperty fs k =
     (if map_of fs ''hasOwnProperty'' \<noteq> None then Inl TypeError else Inr (map_of fs k \<noteq> None))"

text \<open>A key that is the decimal text of an array index.\<close>

definition arrayIndex :: "string \<Rightarrow> nat option" where
  "arrayIndex k =
     (if k \<noteq> [] \<and> list_all isDigit k \<and> showNat (nat (digitsValue 0 k)) = k
      then Some (nat (digitsValue 0 k)) else None)"

text \<open>\<^verbatim>\<open>v[k]\<close> on any value but \<^verbatim>\<open>undefined\<close> and \<^verbatim>\<open>null\<close> (where JavaScript
  throws; the callers below check for them where they can occur): own properties of
  objects, \<^verbatim>\<open>length\<close> and the indices of arrays and strings. The properties of a
  Buffer are outside the model.\<close>

definition propOf :: "jsval \<Rightarrow> string \<Rightarrow> jsval" where
  "propOf v k =
     (case v of
        JObj fs \<Rightarrow> getProp fs k
      | JArr xs \<Rightarrow>
          (if k = ''length'' then JNum (IntNum (int (length xs)))
           else (case arrayIndex k of
                   Some i \<Rightarrow> if i < length xs then xs ! i else JUndefined
                 | None \<Rightarrow> JUndefined))
      | JStr s \<Rightarrow>
          (if k = ''length'' then JNum (IntNum (int (length s)))
           else (case arrayIndex k of
                   Some i \<Rightarrow> if i < length s then JStr [s ! i] else JUndefined
                 | None \<Rightarrow> JUndefined))
      | _ \<Rightarrow> JUndefined)"

text \<open>\<^verbatim>\<open>Object.keys(v)\<close>.\<close>

definition objectKeys :: "jsval \<Rightarrow> error + string list" where
  "objectKeys v =
     (case v of
        JObj fs \<Rightarrow> Inr (map fst fs)
      | JArr xs \<Rightarrow> Inr (map showNat [0..<length xs])
      | JStr s \<Rightarrow> Inr (map showNat [0..<length s])
      | JUndefined \<Rightarrow> Inl TypeError
      | JNull \<Rightarrow> Inl TypeError
      | JBuffer _ _ \<Rightarrow> Inl OutsideModel
      | _ \<Rightarrow> Inr [])"

text \<open>The string that a value is converted to when it is used as a property key, as
  an operand of \<^verbatim>\<open>+\<close> with a string, or as the argument of \<^verbatim>\<open>parseInt\<close>. The
  text of an integer is its decimal text below \<open>10^21\<close>; the texts of larger numbers
  and of Buffers are outside the model. An object is converted by the \<^verbatim>\<open>toString\<close>
  that it inherits; an own property of that name hides it, and no value of the model
  can be called.\<close>

fun toStringJS :: "jsval \<Rightarrow> error + string"
  and joinJS :: "jsval list \<Rightarrow> error + string" where
  "toStringJS (JStr s) = Inr s"
| "toStringJS JUndefined = Inr ''undefined''"
| "toStringJS JNull = Inr ''null''"
| "toStringJS (JBool b) = Inr (if b then ''true'' else ''false'')"
| "toStringJS (JNum n) =
     (case n of
        NaN \<Rightarrow> Inr ''NaN''
      | IntNum i \<Rightarrow> if \<bar>i\<bar> < 10 ^ 21 then Inr (showInt i) else Inl OutsideModel
      | MAX_VALUE \<Rightarrow> Inr ''1.7976931348623157e+308'')"
| "toStringJS (JObj fs) =
     (if map_of fs ''toString'' \<noteq> None then Inl TypeError else Inr ''[object Object]'')"
| "toStringJS (JArr xs) = joinJS xs"
| "toStringJS (JBuffer enc s) = Inl OutsideModel"
| "joinJS [] = Inr []"
| "joinJS (x # xs) =
     (case (if x = JUndefined \<or> x = JNull then Inr [] else toStringJS x) of
        Inl e \<Rightarrow> Inl e
      | Inr s \<Rightarrow>
          if xs = [] then Inr s
          else (case joinJS xs of Inl e \<Rightarrow> Inl e | Inr t \<Rightarrow> Inr (s @ '','' @ t)))"

text \<open>\<^verbatim>\<open>text.split(sep)\<close> for a separator of one character.\<close>

fun split :: "char \<Rightarrow> string \<Rightarrow> string list" where
  "split sep [] = [[]]"
| "split sep (c # cs) =
     (if c = sep then [] # split sep cs
      else (case split sep cs of [] \<Rightarrow> [[c]] | p # ps \<Rightarrow> (c # p) # ps))"


section \<open>The parsing engine\<close>

text \<open>
  The tokenizer (node-expat) is not part of the repository. A well-formed document is
  given as its tree, and the tokenizer's events are the tree's tags and texts in
  document order; the attributes of a start tag arrive as an object of strings.
\<close>

datatype xml = Element string "(string \<times> string) list" "xml list" | Text string

datatype event =
    StartElement string "(string \<times> string) list"
  | TextData string
  | EndElement string

fun events :: "xml \<Rightarrow> event list" where
  "events (Text t) = [TextData t]"
| "events (Element name attributes children) =
     StartElement name (foldl (\<lambda>obj (k, v). setProp obj k v) [] attributes)
       # concat (map events children) @ [EndElement name]"

text \<open>
  The variables that the three handlers of \<^verbatim>\<open>_fromXml\<close> share (lines 98-111). The
  stacks \<open>definitions\<close>, \<open>objects\<close> and \<open>names\<close> have their top first; \<open>orders\<close> is
  indexed by the program and keeps JavaScript's order.

  In JavaScript the object of the open element is shared: \<^verbatim>\<open>currentObject\<close> and the
  slot of the enclosing object both point to it. Here \<open>currentObject\<close> is the open
  element's object, \<open>objects\<close> holds the enclosing objects with the element as it was at
  its start tag, and the end tag writes the finished object back into its slot
  (\<open>writeBack\<close>) when it pops the enclosing object. No handler reads the slot in between.
\<close>

record parser =
  definitions :: "jsval list"
  currentValue :: string
  currentObject :: "(string \<times> jsval) list"
  currentType :: jsval
  objects :: "(string \<times> jsval) list list"
  names :: "string list"
  orders :: "string list list"
  namespaces :: "(string \<times> string) list"
  definitionNamespaces :: "(string \<times> jsval) list"
  definitionNamespaceUrls :: "(string \<times> string) list"

text \<open>\<^verbatim>\<open>key.match(/^xmlns:(.+)$/)\<close>: the dot matches no line terminator.\<close>

definition xmlnsAlias :: "string \<Rightarrow> string option" where
  "xmlnsAlias key =
     (if take 6 key = ''xmlns:'' \<and> drop 6 key \<noteq> []
         \<and> list_all (\<lambda>c. c \<noteq> CHR 0x0A \<and> c \<noteq> CHR 0x0D) (drop 6 key)
      then Some (drop 6 key) else None)"

text \<open>Lines 133-138: the namespaces that the start tag declares.\<close>

fun extractNamespaces ::
  "(string \<times> string) list \<Rightarrow> (string \<times> string) list \<Rightarrow> (string \<times> string) list" where
  "extractNamespaces ns [] = ns"
| "extractNamespaces ns ((key, value) # attributes) =
     extractNamespaces
       (case xmlnsAlias key of Some a \<Rightarrow> assign ns a value | None \<Rightarrow> ns) attributes"

text \<open>Lines 139-145: the namespaces that the definition declares for the element. With
  the alias \<^verbatim>\<open>__proto__\<close> an object or \<^verbatim>\<open>null\<close> as the URL would replace the
  prototype of the table, which is outside the model.\<close>

fun extractDefinitionNamespaces ::
  "(string \<times> jsval) list \<Rightarrow> (string \<times> string) list \<Rightarrow> (string \<times> jsval) list
   \<Rightarrow> error + ((string \<times> string) list \<times> (string \<times> jsval) list)" where
  "extractDefinitionNamespaces [] urls defNs = Inr (urls, defNs)"
| "extractDefinitionNamespaces ((key, value) # definitionAttributes) urls defNs =
     (case xmlnsAlias key of
        None \<Rightarrow> extractDefinitionNamespaces definitionAttributes urls defNs
      | Some a \<Rightarrow>
          (case toStringJS value of
             Inl e \<Rightarrow> Inl e
           | Inr url \<Rightarrow>
               if a = ''__proto__'' \<and> typeofObject value then Inl OutsideModel
               else extractDefinitionNamespaces definitionAttributes
                      (assign urls url a) (assign defNs a value)))"

text \<open>\<^verbatim>\<open>nsUrl != definitionNsUrl\<close> (line 150), where \<^verbatim>\<open>nsUrl\<close> was read from the
  table of the document's namespaces, which holds strings, and \<^verbatim>\<open>definitionNsUrl\<close>
  from the table of the definition's. Two inherited members are the same object when
  they have the same name. Next to a string \<^verbatim>\<open>Object.prototype\<close> is compared as the
  text \<^verbatim>\<open>[object Object]\<close>; the text of an inherited function, and the comparison of
  a string with a number, a boolean or an object of the definition, are outside the
  model.\<close>

definition looseNotEqual :: "string member \<Rightarrow> jsval member \<Rightarrow> error + bool" where
  "looseNotEqual nsUrl definitionNsUrl =
     (case nsUrl of
        Missing \<Rightarrow>
          (case definitionNsUrl of
             Missing \<Rightarrow> Inr False
           | Own d \<Rightarrow> Inr (d \<noteq> JUndefined \<and> d \<noteq> JNull)
           | Inherited m \<Rightarrow> Inr True)
      | Own u \<Rightarrow>
          (case definitionNsUrl of
             Missing \<Rightarrow> Inr True
           | Own d \<Rightarrow>
               (case d of
                  JStr s \<Rightarrow> Inr (u \<noteq> s)
                | JUndefined \<Rightarrow> Inr True
                | JNull \<Rightarrow> Inr True
                | _ \<Rightarrow> Inl OutsideModel)
           | Inherited m \<Rightarrow>
               if m = ''__proto__'' then Inr (u \<noteq> ''[object Object]'') else Inl OutsideModel)
      | Inherited n \<Rightarrow>
          (case definitionNsUrl of
             Missing \<Rightarrow> Inr True
           | Own d \<Rightarrow>
               (case d of
                  JStr s \<Rightarrow>
                    if n = ''__proto__'' then Inr (s \<noteq> ''[object Object]'') else Inl OutsideModel
                | JUndefined \<Rightarrow> Inr True
                | JNull \<Rightarrow> Inr True
                | _ \<Rightarrow> Inl OutsideModel)
           | Inherited m \<Rightarrow> Inr (n \<noteq> m)))"

text \<open>Lines 147-150: the alias to record when the element's namespace is not the one
  the definition expects.\<close>

definition foreignNamespace ::
  "string option \<Rightarrow> (string \<times> string) list \<Rightarrow> (string \<times> jsval) list \<Rightarrow> jsval
   \<Rightarrow> error + string option" where
  "foreignNamespace nsAlias ns defNs definitionAlias =
     (case nsAlias of
        None \<Rightarrow> Inr None
      | Some a \<Rightarrow>
          if a = [] then Inr None
          else (case toStringJS definitionAlias of
                  Inl e \<Rightarrow> Inl e
                | Inr k \<Rightarrow>
                    (case looseNotEqual (member ns a) (member defNs k) of
                       Inl e \<Rightarrow> Inl e
                     | Inr differs \<Rightarrow> Inr (if differs then Some a else None))))"

text \<open>Lines 160-179: the value the definition gives for one attribute. An inherited
  member counts as an alias like any other truthy value; as a key,
  \<^verbatim>\<open>Object.prototype\<close> is the text \<^verbatim>\<open>[object Object]\<close>, and the text of an inherited
  function is outside the model.\<close>

definition definitionValueOf ::
  "jsval \<Rightarrow> (string \<times> string) list \<Rightarrow> (string \<times> string) list \<Rightarrow> string \<Rightarrow> string
   \<Rightarrow> error + jsval"
  where
  "definitionValueOf definitionAttributes ns urls key value =
     (case split CHR '':'' key of
        p0 # p1 # _ \<Rightarrow>
          if p0 = ''xmlns'' then
            (case member urls value of
               Own a \<Rightarrow> Inr (if a \<noteq> [] then JStr value else JStr [])
             | Inherited m \<Rightarrow> Inr (JStr value)
             | Missing \<Rightarrow> Inr (JStr []))
          else
            (case (case member ns p0 of
                     Own u \<Rightarrow> Inr u
                   | Inherited n \<Rightarrow>
                       if n = ''__proto__'' then Inr ''[object Object]'' else Inl OutsideModel
                   | Missing \<Rightarrow> Inr ''undefined'') of
               Inl e \<Rightarrow> Inl e
             | Inr nsUrl \<Rightarrow>
                 (case member urls nsUrl of
                    Own a \<Rightarrow>
                      Inr (if a \<noteq> [] then propOf definitionAttributes (a @ '':'' @ p1)
                           else JStr [])
                  | Inherited m \<Rightarrow>
                      if m = ''__proto__''
                      then Inr (propOf definitionAttributes (''[object Object]:'' @ p1))
                      else Inl OutsideModel
                  | Missing \<Rightarrow> Inr (JStr [])))
      | _ \<Rightarrow> Inr (propOf definitionAttributes key))"

text \<open>Lines 159-189: the loop over the keys of \<^verbatim>\<open>attributes\<close>, which deletes or
  converts the attribute of each key. The last argument is \<^verbatim>\<open>attributes\<close> as the
  loop changes it.\<close>

fun filterAttributes ::
  "jsval \<Rightarrow> (string \<times> string) list \<Rightarrow> (string \<times> string) list \<Rightarrow> (string \<times> string) list
   \<Rightarrow> (string \<times> jsval) list \<Rightarrow> error + (string \<times> jsval) list" where
  "filterAttributes definitionAttributes ns urls [] attributes = Inr attributes"
| "filterAttributes definitionAttributes ns urls ((key, value) # rest) attributes =
     (case definitionValueOf definitionAttributes ns urls key value of
        Inl e \<Rightarrow> Inl e
      | Inr definitionValue \<Rightarrow>
          if JStr value = definitionValue
          then filterAttributes definitionAttributes ns urls rest (deleteProp attributes key)
          else if truthy (propOf definitionAttributes (key @ ''$type''))
          then (case convertFromXsdType (propOf definitionAttributes (key @ ''$type'')) value of
                  Inl e \<Rightarrow> Inl e
                | Inr v \<Rightarrow>
                    filterAttributes definitionAttributes ns urls rest
                      (setProp attributes key v))
          else filterAttributes definitionAttributes ns urls rest attributes)"

text \<open>Lines 198-214: the attributes that are left go to the enclosing object.\<close>

definition storeAttributes ::
  "(string \<times> jsval) list \<Rightarrow> string \<Rightarrow> jsval \<Rightarrow> (string \<times> jsval) list
   \<Rightarrow> error + (string \<times> jsval) list"
  where
  "storeAttributes obj name type attributes =
     (case ownProperty obj (name @ ''$attributes'') of
        Inl e \<Rightarrow> Inl e
      | Inr has \<Rightarrow>
          if has then
            (case getProp obj (name @ ''$attributes'') of
               JArr xs \<Rightarrow> Inr (setProp obj (name @ ''$attributes'') (JArr (xs @ [JObj attributes])))
             | old \<Rightarrow> Inr (setProp obj (name @ ''$attributes'') (JArr [old, JObj attributes])))
          else if isArray type
          then Inr (setProp obj (name @ ''$attributes'') (JArr [JObj attributes]))
          else Inr (setProp obj (name @ ''$attributes'') (JObj attributes)))"

text \<open>Lines 219-233: the new object goes to the enclosing object under the tag's name.
  Under the name \<^verbatim>\<open>__proto__\<close> the assignment would replace the prototype of the
  enclosing object, which is outside the model.\<close>

definition handleTag ::
  "(string \<times> jsval) list \<Rightarrow> string \<Rightarrow> jsval \<Rightarrow> (string \<times> jsval) list
   \<Rightarrow> error + (string \<times> jsval) list"
  where
  "handleTag obj name type nextObject =
     (case ownProperty obj name of
        Inl e \<Rightarrow> Inl e
      | Inr has \<Rightarrow>
          if has then
            (case getProp obj name of
               JArr xs \<Rightarrow> Inr (setProp obj name (JArr (xs @ [JObj nextObject])))
             | old \<Rightarrow> Inr (setProp obj name (JArr [old, JObj nextObject])))
          else if name = ''__proto__'' then Inl OutsideModel
          else if isArray type then Inr (setProp obj name (JArr [JObj nextObject]))
          else Inr (setProp obj name (JObj nextObject)))"

text \<open>Lines 236-240: the order of the tags seen at this depth.\<close>

definition saveOrder ::
  "string list list \<Rightarrow> nat \<Rightarrow> string \<Rightarrow> (string \<times> jsval) list \<Rightarrow> string list list" where
  "saveOrder os depth name obj =
     (if length os \<le> depth then os @ [[name]]
      else if \<not> isArray (getProp obj name) then os[depth := os ! depth @ [name]]
      else os)"

text \<open>Lines 115-121 and 253-257: the local name and the namespace alias of a tag name.
  With more than one colon the second part is the local name.\<close>

definition localName :: "string \<Rightarrow> string" where
  "localName qname =
     (let parts = split CHR '':'' qname in if length parts > 1 then parts ! 1 else qname)"

definition aliasOf :: "string \<Rightarrow> string option" where
  "aliasOf qname =
     (let parts = split CHR '':'' qname in if length parts > 1 then Some (parts ! 0) else None)"

text \<open>\<^verbatim>\<open>definition[name + '$attributes'] || {}\<close> (line 124).\<close>

definition attributeSchema :: "jsval \<Rightarrow> string \<Rightarrow> jsval" where
  "attributeSchema definition name =
     (if truthy (propOf definition (name @ ''$attributes''))
      then propOf definition (name @ ''$attributes'') else JObj [])"

text \<open>The \<^verbatim>\<open>startElement\<close> handler (lines 113-246). The definition of the children,
  \<^verbatim>\<open>definition[name] || {}\<close>, is only ever read under keys that have a \<^verbatim>\<open>$\<close> and
  under the names of elements, to go one level down; an inherited function there gives
  what the empty object gives.\<close>

definition startElement ::
  "bool \<Rightarrow> parser \<Rightarrow> string \<Rightarrow> (string \<times> string) list \<Rightarrow> error + parser" where
  "startElement inlineAttributes st qname attributes =
     (case definitions st of
        [] \<Rightarrow> Inl TypeError
      | definition # _ \<Rightarrow>
          let name = localName qname;
              nsAlias = aliasOf qname;
              definitionAttributes = attributeSchema definition name;
              type = propOf definition (name @ ''$type'');
              ns = extractNamespaces (namespaces st) attributes
          in case (case definitionAttributes of
                     JObj fs \<Rightarrow>
                       extractDefinitionNamespaces fs
                         (definitionNamespaceUrls st) (definitionNamespaces st)
                   | JBuffer _ _ \<Rightarrow> Inl OutsideModel
                   | _ \<Rightarrow> Inr (definitionNamespaceUrls st, definitionNamespaces st)) of
               Inl e \<Rightarrow> Inl e
             | Inr (urls, defNs) \<Rightarrow>
          (case foreignNamespace nsAlias ns defNs (propOf definition (name @ ''$namespace'')) of
               Inl e \<Rightarrow> Inl e
             | Inr foreign \<Rightarrow>
          (case filterAttributes definitionAttributes ns urls attributes
                  (map (\<lambda>(k, v). (k, JStr v)) attributes) of
               Inl e \<Rightarrow> Inl e
             | Inr attributes' \<Rightarrow>
          let nextObject0 =
                (case foreign of
                   Some a \<Rightarrow> if inlineAttributes then [(''namespace$'', JStr a)] else []
                 | None \<Rightarrow> []);
              obj0 =
                (case foreign of
                   Some a \<Rightarrow>
                     if inlineAttributes then currentObject st
                     else setProp (currentObject st) (name @ ''$namespace'') (JStr a)
                 | None \<Rightarrow> currentObject st);
              nextObject =
                (if attributes' \<noteq> [] \<and> inlineAttributes
                 then foldl (\<lambda>obj (k, v). setProp obj (CHR ''$'' # k) v) nextObject0 attributes'
                 else nextObject0)
          in case (if attributes' \<noteq> [] \<and> \<not> inlineAttributes
                   then storeAttributes obj0 name type attributes' else Inr obj0) of
               Inl e \<Rightarrow> Inl e
             | Inr obj1 \<Rightarrow>
          (case handleTag obj1 name type nextObject of
               Inl e \<Rightarrow> Inl e
             | Inr obj2 \<Rightarrow>
               Inr (st\<lparr>definitions :=
                        (if truthy (propOf definition name) then propOf definition name
                         else JObj []) # definitions st,
                      currentValue := [],
                      currentObject := nextObject,
                      currentType := type,
                      objects := obj2 # objects st,
                      names := name # names st,
                      orders := saveOrder (orders st) (length (names st)) name obj2,
                      namespaces := ns,
                      definitionNamespaces := defNs,
                      definitionNamespaceUrls := urls\<rparr>)))))"

text \<open>\<^verbatim>\<open>_compareArray(array1, array2)\<close> (lines 913-928), where \<^verbatim>\<open>array2\<close> is the
  array of names that the parser collected. A \<^verbatim>\<open>length\<close> of \<^verbatim>\<open>array1\<close> that is
  neither a number nor missing is outside the model.\<close>

definition compareArray :: "jsval \<Rightarrow> string list \<Rightarrow> error + bool" where
  "compareArray array1 array2 =
     (if \<not> truthy array1 then Inr False
      else (case propOf array1 ''length'' of
              JNum n \<Rightarrow>
                if n \<noteq> IntNum (int (length array2)) then Inr False
                else Inr (list_all (\<lambda>i. propOf array1 (showNat i) = JStr (array2 ! i))
                            [0..<length array2])
            | JUndefined \<Rightarrow> Inr False
            | JNull \<Rightarrow> Inr False
            | _ \<Rightarrow> Inl OutsideModel))"

text \<open>The finished object of the element that closes goes back to its slot in the
  enclosing object: the slot itself, or the last place of the array in it.\<close>

definition writeBack ::
  "(string \<times> jsval) list \<Rightarrow> string \<Rightarrow> (string \<times> jsval) list \<Rightarrow> (string \<times> jsval) list" where
  "writeBack obj name child =
     (case getProp obj name of
        JArr xs \<Rightarrow> setProp obj name (JArr (butlast xs @ [JObj child]))
      | _ \<Rightarrow> setProp obj name (JObj child))"

text \<open>Lines 263-272: the order seen among the children is kept when it has more than
  one entry and is not the order that the definition gives.\<close>

definition attachOrder ::
  "jsval list \<Rightarrow> nat \<Rightarrow> string list list \<Rightarrow> string \<Rightarrow> (string \<times> jsval) list
   \<Rightarrow> error + (string list list \<times> (string \<times> jsval) list)" where
  "attachOrder defs depth os name obj =
     (if depth < length os then
        (let order = last os in
         if length order > 1 then
           (case defs of
              [] \<Rightarrow> Inl TypeError
            | d # _ \<Rightarrow>
                (case compareArray (propOf d (name @ ''$order'')) order of
                   Inl e \<Rightarrow> Inl e
                 | Inr same \<Rightarrow>
                     Inr (butlast os,
                          if same then obj
                          else setProp obj (name @ ''$order'') (JArr (map JStr order)))))
         else Inr (butlast os, obj))
      else Inr (os, obj))"

text \<open>Lines 275-310: the text of the element becomes its value, or the \<^verbatim>\<open>$\<close> entry
  of its object. A slot that holds neither an object nor \<^verbatim>\<open>undefined\<close> or
  \<^verbatim>\<open>null\<close> does not occur for a well-formed document and is outside the model.\<close>

definition convertValue :: "bool \<Rightarrow> jsval \<Rightarrow> string \<Rightarrow> error + jsval" where
  "convertValue convertTypes type value =
     (if convertTypes then convertFromXsdType type value else Inr (JStr value))"

definition assignValue ::
  "bool \<Rightarrow> jsval \<Rightarrow> string \<Rightarrow> (string \<times> jsval) list \<Rightarrow> string
   \<Rightarrow> error + (string \<times> jsval) list" where
  "assignValue convertTypes type value obj name =
     (case getProp obj name of
        JArr xs \<Rightarrow>
          (case convertValue convertTypes type value of
             Inl e \<Rightarrow> Inl e
           | Inr convertedValue \<Rightarrow>
               (if xs = [] then Inl TypeError
                else (case last xs of
                        JObj fs \<Rightarrow>
                          if fs = []
                          then Inr (setProp obj name (JArr (butlast xs @ [convertedValue])))
                          else Inr (setProp obj name
                                 (JArr (butlast xs @ [JObj (setProp fs ''$'' convertedValue)])))
                      | JUndefined \<Rightarrow> Inl TypeError
                      | JNull \<Rightarrow> Inl TypeError
                      | _ \<Rightarrow> Inl OutsideModel)))
      | JObj fs \<Rightarrow>
          if fs = [] then
            (case convertValue convertTypes type value of
               Inl e \<Rightarrow> Inl e
             | Inr v \<Rightarrow> Inr (setProp obj name v))
          else if trim value \<noteq> [] then
            (case convertValue convertTypes type value of
               Inl e \<Rightarrow> Inl e
             | Inr v \<Rightarrow> Inr (setProp obj name (JObj (setProp fs ''$'' v))))
          else Inr obj
      | JNull \<Rightarrow> Inl TypeError
      | JBuffer _ _ \<Rightarrow> Inl OutsideModel
      | _ \<Rightarrow> Inr obj)"

text \<open>The \<^verbatim>\<open>endElement\<close> handler (lines 252-316).\<close>

definition endElement :: "bool \<Rightarrow> parser \<Rightarrow> string \<Rightarrow> error + parser" where
  "endElement convertTypes st qname =
     (let name = localName qname
      in case objects st of
           [] \<Rightarrow> Inr (st\<lparr>currentValue := []\<rparr>)
         | obj # rest \<Rightarrow>
             (case attachOrder (tl (definitions st)) (length (names st)) (orders st) name
                     (case names st of
                        [] \<Rightarrow> obj
                      | n # _ \<Rightarrow> writeBack obj n (currentObject st)) of
                Inl e \<Rightarrow> Inl e
              | Inr (os, obj1) \<Rightarrow>
                  (case assignValue convertTypes (currentType st) (currentValue st) obj1 name of
                     Inl e \<Rightarrow> Inl e
                   | Inr obj2 \<Rightarrow>
                       Inr (st\<lparr>definitions := tl (definitions st),
                               currentValue := [],
                               currentObject := obj2,
                               objects := rest,
                               names := tl (names st),
                               orders := os\<rparr>))))"

text \<open>The \<^verbatim>\<open>text\<close> handler (lines 248-250) and the run of the parser over the
  events. An exception of a handler ends the parse.\<close>

fun handleEvent :: "bool \<Rightarrow> bool \<Rightarrow> parser \<Rightarrow> event \<Rightarrow> error + parser" where
  "handleEvent inlineAttributes convertTypes st (StartElement name attributes) =
     startElement inlineAttributes st name attributes"
| "handleEvent inlineAttributes convertTypes st (TextData d) =
     Inr (st\<lparr>currentValue := currentValue st @ d\<rparr>)"
| "handleEvent inlineAttributes convertTypes st (EndElement name) =
     endElement convertTypes st name"

fun parseEvents :: "bool \<Rightarrow> bool \<Rightarrow> parser \<Rightarrow> event list \<Rightarrow> error + parser" where
  "parseEvents inlineAttributes convertTypes st [] = Inr st"
| "parseEvents inlineAttributes convertTypes st (e # es) =
     (case handleEvent inlineAttributes convertTypes st e of
        Inl err \<Rightarrow> Inl err
      | Inr st' \<Rightarrow> parseEvents inlineAttributes convertTypes st' es)"

definition initialParser :: "jsval \<Rightarrow> parser" where
  "initialParser objectDefinition =
     \<lparr>definitions = [if truthy objectDefinition then objectDefinition else JObj []],
      currentValue = [],
      currentObject = [],
      currentType = JStr [],
      objects = [],
      names = [],
      orders = [],
      namespaces = [],
      definitionNamespaces = [],
      definitionNamespaceUrls = []\<rparr>"

text \<open>\<^verbatim>\<open>result\<close>: the outermost object, with every element that is still open
  written back. After the events of a document no element is open.\<close>

definition resultOf :: "parser \<Rightarrow> (string \<times> jsval) list" where
  "resultOf st =
     foldl (\<lambda>child (n, obj). writeBack obj n child) (currentObject st)
       (zip (names st) (objects st))"

text \<open>\<^verbatim>\<open>_fromXml(xml, objectDefinition, inlineAttributes, convertTypes)\<close> (lines
  97-323) and \<^verbatim>\<open>fromXml\<close> (lines 29-32), whose options are given as they are after
  the defaults have been merged in. A document is an element.\<close>

definition fromXml' :: "xml \<Rightarrow> jsval \<Rightarrow> bool \<Rightarrow> bool \<Rightarrow> error + jsval" where
  "fromXml' doc objectDefinition inlineAttributes convertTypes =
     (case doc of
        Text _ \<Rightarrow> Inl MalformedXml
      | Element _ _ _ \<Rightarrow>
          (case parseEvents inlineAttributes convertTypes (initialParser objectDefinition)
                  (events doc) of
             Inl e \<Rightarrow> Inl e
           | Inr st \<Rightarrow> Inr (JObj (resultOf st))))"

definition fromXml :: "xml \<Rightarrow> jsval \<Rightarrow> bool \<Rightarrow> bool \<Rightarrow> error + jsval" where
  "fromXml doc definition inlineAttributes convertTypes =
     fromXml' doc (if definition = JUndefined then JObj [] else definition)
       inlineAttributes convertTypes"

section \<open>The XSD compiler\<close>

subsection \<open>\<^verbatim>\<open>parseInt\<close> of a value\<close>

definition hexDigitValue :: "char \<Rightarrow> int option" where
  "hexDigitValue c =
     (if isDigit c then digitValue c
      else if c = CHR ''a'' \<or> c = CHR ''A'' then Some 10
      else if c = CHR ''b'' \<or> c = CHR ''B'' then Some 11
      else if c = CHR ''c'' \<or> c = CHR ''C'' then Some 12
      else if c = CHR ''d'' \<or> c = CHR ''D'' then Some 13
      else if c = CHR ''e'' \<or> c = CHR ''E'' then Some 14
      else if c = CHR ''f'' \<or> c = CHR ''F'' then Some 15
      else None)"

fun hexDigitsValue :: "int \<Rightarrow> string \<Rightarrow> int" where
  "hexDigitsValue acc [] = acc"
| "hexDigitsValue acc (c # cs) = hexDigitsValue (16 * acc + the (hexDigitValue c)) cs"

text \<open>\<^verbatim>\<open>parseInt(text)\<close> with no radix: as with radix 10, but digits after
  \<^verbatim>\<open>0x\<close> or \<^verbatim>\<open>0X\<close> are read in base 16.\<close>

definition parseIntNoRadix :: "string \<Rightarrow> jsnum" where
  "parseIntNoRadix s =
     (let t = dropWhile isWhite s;
          neg = (t \<noteq> [] \<and> hd t = CHR ''-'');
          u = (if t \<noteq> [] \<and> (hd t = CHR ''-'' \<or> hd t = CHR ''+'') then tl t else t)
      in if take 2 u = ''0x'' \<or> take 2 u = ''0X'' then
           (let ds = takeWhile (\<lambda>c. hexDigitValue c \<noteq> None) (drop 2 u)
            in if ds = [] then NaN
               else IntNum (if neg then - hexDigitsValue 0 ds else hexDigitsValue 0 ds))
         else
           (let ds = takeWhile isDigit u
            in if ds = [] then NaN
               else IntNum (if neg then - digitsValue 0 ds else digitsValue 0 ds)))"

text \<open>\<^verbatim>\<open>parseInt(v, 10)\<close> and \<^verbatim>\<open>parseInt(v)\<close> of any value: its string is parsed.\<close>

definition parseInt10 :: "jsval \<Rightarrow> error + jsnum" where
  "parseInt10 v =
     (case toStringJS v of Inl e \<Rightarrow> Inl e | Inr s \<Rightarrow> hostNumber (parseIntString s))"

definition parseInt :: "jsval \<Rightarrow> error + jsnum" where
  "parseInt v =
     (case toStringJS v of Inl e \<Rightarrow> Inl e | Inr s \<Rightarrow> hostNumber (parseIntNoRadix s))"

text \<open>\<^verbatim>\<open>n > k\<close> for a number that \<^verbatim>\<open>parseInt\<close> returned or that the program wrote.\<close>

definition numGreater :: "jsnum \<Rightarrow> int \<Rightarrow> bool" where
  "numGreater n k = (case n of IntNum i \<Rightarrow> k < i | MAX_VALUE \<Rightarrow> True | _ \<Rightarrow> False)"

text \<open>\<^verbatim>\<open>v.hasOwnProperty(k)\<close> on any value but \<^verbatim>\<open>undefined\<close> and \<^verbatim>\<open>null\<close>.\<close>

definition hasOwn :: "jsval \<Rightarrow> string \<Rightarrow> error + bool" where
  "hasOwn v k =
     (case v of
        JObj fs \<Rightarrow> ownProperty fs k
      | JArr xs \<Rightarrow>
          Inr (k = ''length'' \<or> (case arrayIndex k of Some i \<Rightarrow> i < length xs | None \<Rightarrow> False))
      | JStr s \<Rightarrow>
          Inr (k = ''length'' \<or> (case arrayIndex k of Some i \<Rightarrow> i < length s | None \<Rightarrow> False))
      | _ \<Rightarrow> Inr False)"

definition xsdNamespace :: string where
  "xsdNamespace = ''http://www.w3.org/2001/XMLSchema''"

text \<open>\<^verbatim>\<open>alias.replace(/^xmlns:/, '')\<close>.\<close>

definition stripXmlns :: "string \<Rightarrow> string" where
  "stripXmlns alias = (if take 6 alias = ''xmlns:'' then drop 6 alias else alias)"

subsection \<open>Namespaces\<close>

text \<open>\<^verbatim>\<open>key.match(/^\$(xmlns:.+)$/)\<close>.\<close>

definition dollarXmlns :: "string \<Rightarrow> string option" where
  "dollarXmlns key =
     (case key of
        [] \<Rightarrow> None
      | c # rest \<Rightarrow> if c = CHR ''$'' \<and> xmlnsAlias rest \<noteq> None then Some rest else None)"

text \<open>\<^verbatim>\<open>_extractAndAddNamespaces(element, originalNamespaces)\<close> (lines 571-582);
  every caller passes an object as \<^verbatim>\<open>originalNamespaces\<close>.\<close>

definition extractAndAddNamespaces ::
  "jsval \<Rightarrow> (string \<times> jsval) list \<Rightarrow> error + (string \<times> jsval) list" where
  "extractAndAddNamespaces element originalNamespaces =
     (case objectKeys element of
        Inl e \<Rightarrow> Inl e
      | Inr keys \<Rightarrow>
          Inr (foldl (\<lambda>ns key. case dollarXmlns key of
                                 Some a \<Rightarrow> setProp ns a (propOf element key)
                               | None \<Rightarrow> ns)
                 originalNamespaces keys))"

text \<open>The reverse lookup \<^verbatim>\<open>namespaceToAlias\<close> (lines 490-492 and 597-600).\<close>

fun reverseAliases ::
  "(string \<times> string) list \<Rightarrow> (string \<times> jsval) list \<Rightarrow> error + (string \<times> string) list" where
  "reverseAliases acc [] = Inr acc"
| "reverseAliases acc ((key, value) # ns) =
     (case toStringJS value of
        Inl e \<Rightarrow> Inl e
      | Inr url \<Rightarrow> reverseAliases (assign acc url key) ns)"

text \<open>\<^verbatim>\<open>_namespaceLookup(name, namespaces)\<close> (lines 817-831): the local name and the
  namespace of a qualified name. \<^verbatim>\<open>split\<close> is a method of strings only.\<close>

definition namespaceLookup ::
  "jsval \<Rightarrow> (string \<times> jsval) list \<Rightarrow> error + (string \<times> jsval)" where
  "namespaceLookup name ns =
     (case name of
        JStr s \<Rightarrow>
          (case split CHR '':'' s of
             p0 # p1 # _ \<Rightarrow>
               (case ownProperty ns (''xmlns:'' @ p0) of
                  Inl e \<Rightarrow> Inl e
                | Inr has \<Rightarrow>
                    if has then Inr (p1, getProp ns (''xmlns:'' @ p0))
                    else Inl (CouldNotFindNamespaceAlias s))
           | _ \<Rightarrow> Inr (s, JStr []))
      | _ \<Rightarrow> Inl TypeError)"

subsection \<open>Type references\<close>

text \<open>The length facets of a restriction, as lines 616-630 (\<open>radix10 = False\<close>) and
  lines 692-708 (\<open>radix10 = True\<close>) read them; the result is
  \<open>(maxLength, minLength)\<close>.\<close>

definition restrictionLengths ::
  "bool \<Rightarrow> jsval \<Rightarrow> jsnum \<Rightarrow> jsnum \<Rightarrow> error + (jsnum \<times> jsnum)" where
  "restrictionLengths radix10 restriction maxLength minLength =
     (let parse = (if radix10 then parseInt10 else parseInt) in
      if truthy (propOf restriction ''length'') then
        (case parse (propOf (propOf restriction ''length'') ''$value'') of
           Inl e \<Rightarrow> Inl e
         | Inr n \<Rightarrow> Inr (n, n))
      else
        (case (if truthy (propOf restriction ''maxLength'')
               then parse (propOf (propOf restriction ''maxLength'') ''$value'')
               else Inr maxLength) of
           Inl e \<Rightarrow> Inl e
         | Inr mx \<Rightarrow>
             (case (if truthy (propOf restriction ''minLength'')
                    then parse (propOf (propOf restriction ''minLength'') ''$value'')
                    else Inr minLength) of
                Inl e \<Rightarrow> Inl e
              | Inr mn \<Rightarrow> Inr (mx, mn))))"

text \<open>How the loop of lines 661-727 ends when it does not throw: at a type of the XSD
  namespace, at a complexType or element of the lookup table (which the caller compiles),
  or by running out of its range.\<close>

datatype resolved = Primitive string | Reference string jsval | NotResolved

text \<open>One pass of the loop's body (lines 666-726) with the current \<^verbatim>\<open>type\<close>,
  \<^verbatim>\<open>maxLength\<close> and \<^verbatim>\<open>minLength\<close>: the pass throws, leaves the loop by
  \<^verbatim>\<open>break\<close>, or follows a simpleType to its base or item type and goes round again.\<close>

datatype pass = Throws error | Stops resolved | Follows jsval jsnum jsnum

definition loopPass ::
  "jsval \<Rightarrow> jsnum \<Rightarrow> jsnum \<Rightarrow> (string \<times> jsval) list \<Rightarrow> (string \<times> jsval) list \<Rightarrow> pass" where
  "loopPass type maxLength minLength typeLookupMap elementNamespaces =
     (case namespaceLookup type elementNamespaces of
        Inl e \<Rightarrow> Throws e
      | Inr (name, ns) \<Rightarrow>
          if ns = JStr xsdNamespace then Stops (Primitive name)
          else
            (case type of
               JStr t \<Rightarrow>
                 (let subElement = getProp typeLookupMap (''#xmlns:'' @ t);
                      subXsdType = getProp typeLookupMap (''#xmlns:'' @ t @ ''$xsdType'')
                  in if truthy subElement then
                       (if subXsdType = JStr ''complexType'' then
                          Stops (Reference ''complexType'' subElement)
                        else if subXsdType = JStr ''element'' then
                          Stops (Reference ''element'' subElement)
                        else if subXsdType = JStr ''simpleType'' then
                          (if truthy (propOf subElement ''restriction'') then
                             (case restrictionLengths True (propOf subElement ''restriction'')
                                     maxLength minLength of
                                Inl e \<Rightarrow> Throws e
                              | Inr (mx, mn) \<Rightarrow>
                                  Follows (propOf (propOf subElement ''restriction'') ''$base'')
                                    mx mn)
                           else if truthy (propOf subElement ''list'') then
                             Follows (propOf (propOf subElement ''list'') ''$itemType'')
                               maxLength minLength
                           else Throws UnknownSimpleTypeStructure)
                        else Throws (UnknownXsdType subXsdType))
                     else Throws (CouldNotFindType name ns))
             | _ \<Rightarrow> Throws TypeError))"

text \<open>The loop \<^verbatim>\<open>for (let i = 0; i <= 3; i++)\<close> of lines 661-727 from the counter
  \<open>i\<close> on: at \<^verbatim>\<open>i === 3\<close> it throws, before that it makes a pass.\<close>

function resolveType ::
  "nat \<Rightarrow> jsval \<Rightarrow> jsnum \<Rightarrow> jsnum \<Rightarrow> (string \<times> jsval) list \<Rightarrow> (string \<times> jsval) list
   \<Rightarrow> error + (resolved \<times> jsnum \<times> jsnum)" where
  "resolveType i type maxLength minLength typeLookupMap elementNamespaces =
     (if 3 < i then Inr (NotResolved, maxLength, minLength)
      else if i = 3 then Inl TypeNestedMoreThan3Levels
      else
        (case loopPass type maxLength minLength typeLookupMap elementNamespaces of
           Throws e \<Rightarrow> Inl e
         | Stops r \<Rightarrow> Inr (r, maxLength, minLength)
         | Follows type' mx mn \<Rightarrow>
             resolveType (Suc i) type' mx mn typeLookupMap elementNamespaces))"
  by pat_completeness auto
termination
  by (relation "measure (\<lambda>(i, _). 4 - i)") auto

declare resolveType.simps [simp del]

text \<open>The words of the specification for the loop: the type reference that \<open>n\<close>
  indirections through simpleType declarations lead to from a type reference, with the
  length facets read on the way; \<open>None\<close> when fewer than \<open>n\<close> can be followed. One
  indirection is a pass that ends in \<open>Follows\<close>.\<close>

fun followSimpleTypes ::
  "nat \<Rightarrow> jsval \<Rightarrow> jsnum \<Rightarrow> jsnum \<Rightarrow> (string \<times> jsval) list \<Rightarrow> (string \<times> jsval) list
   \<Rightarrow> (jsval \<times> jsnum \<times> jsnum) option" where
  "followSimpleTypes 0 type maxLength minLength typeLookupMap elementNamespaces =
     Some (type, maxLength, minLength)"
| "followSimpleTypes (Suc n) type maxLength minLength typeLookupMap elementNamespaces =
     (case loopPass type maxLength minLength typeLookupMap elementNamespaces of
        Follows type' mx mn \<Rightarrow> followSimpleTypes n type' mx mn typeLookupMap elementNamespaces
      | _ \<Rightarrow> None)"


subsection \<open>Elements and complex types\<close>

text \<open>Lines 610-635: the type that an element names in its \<^verbatim>\<open>type\<close> attribute or in
  its inline simpleType, with \<open>(maxLength, minLength)\<close>.\<close>

definition extractType :: "jsval \<Rightarrow> error + (jsval \<times> jsnum \<times> jsnum)" where
  "extractType element =
     (if truthy (propOf element ''$type'') then Inr (propOf element ''$type'', IntNum 0, IntNum 0)
      else if truthy (propOf (propOf element ''simpleType'') ''restriction'') then
        (case restrictionLengths False (propOf (propOf element ''simpleType'') ''restriction'')
                (IntNum 0) (IntNum 0) of
           Inl e \<Rightarrow> Inl e
         | Inr (mx, mn) \<Rightarrow>
             Inr (propOf (propOf (propOf element ''simpleType'') ''restriction'') ''$base'',
                  mx, mn))
      else if truthy (propOf (propOf element ''simpleType'') ''list'') then
        Inr (propOf (propOf (propOf element ''simpleType'') ''list'') ''$itemType'',
             IntNum 0, IntNum 0)
      else Inl UnknownSimpleTypeStructure)"

text \<open>Lines 730-742: the definition of a referenced or inline type goes into the
  element's result. An element named \<^verbatim>\<open>__proto__\<close> would get the object as the
  prototype of \<^verbatim>\<open>result\<close>, which is outside the model.\<close>

definition mergeSubResult ::
  "string \<Rightarrow> (string \<times> jsval) list \<Rightarrow> jsval \<Rightarrow> error + (string \<times> jsval) list" where
  "mergeSubResult name result subResult =
     (if \<not> truthy subResult then Inr result
      else if truthy (propOf subResult ''$type'')
      then Inr (setProp result (name @ ''$type'') (propOf subResult ''$type''))
      else if name = ''__proto__'' then Inl OutsideModel
      else (case subResult of
              JObj sub \<Rightarrow>
                if ''__proto__'' \<in> set (map fst sub) then Inl OutsideModel
                else
                  Inr (foldl (\<lambda>r (key, v).
                           if startsWith key ''$'' then setProp r (name @ key) v
                           else (case getProp r name of
                                   JObj inner \<Rightarrow> setProp r name (JObj (setProp inner key v))
                                 | _ \<Rightarrow> r))
                    (setProp result name (JObj [])) sub)
            | _ \<Rightarrow> Inr (setProp result name (JObj []))))"

text \<open>Lines 730-773: what the element branch does once the type is known. \<open>name\<close> is
  the string of \<^verbatim>\<open>element.$name\<close>.\<close>

definition finishElement ::
  "jsval \<Rightarrow> string \<Rightarrow> (string \<times> jsval) list \<Rightarrow> jsval \<Rightarrow> (string \<times> string) list \<Rightarrow> jsval
   \<Rightarrow> bool \<Rightarrow> jsnum \<Rightarrow> jsnum \<Rightarrow> error + jsval" where
  "finishElement element name result subResult namespaceToAlias targetNamespace
       elementFormQualified maxLength minLength =
     (case mergeSubResult name result subResult of
        Inl e \<Rightarrow> Inl e
      | Inr merged \<Rightarrow>
     (case (if elementFormQualified then
              (case toStringJS targetNamespace of
                 Inl e \<Rightarrow> Inl e
               | Inr url \<Rightarrow>
                   (case map_of namespaceToAlias url of
                      None \<Rightarrow> Inl TypeError
                    | Some alias \<Rightarrow>
                        Inr (setProp merged (name @ ''$namespace'') (JStr (stripXmlns alias)))))
            else Inr merged) of
        Inl e \<Rightarrow> Inl e
      | Inr result1 \<Rightarrow>
          (case parseInt10
                  (if propOf element ''$maxOccurs'' = JStr ''unbounded'' then JNum MAX_VALUE
                   else if truthy (propOf element ''$maxOccurs'') then propOf element ''$maxOccurs''
                   else JNum (IntNum 0)) of
             Inl e \<Rightarrow> Inl e
           | Inr maxOccurs \<Rightarrow>
               (case parseInt10
                       (if truthy (propOf element ''$minOccurs'') then propOf element ''$minOccurs''
                        else JNum (IntNum 0)) of
                  Inl e \<Rightarrow> Inl e
                | Inr minOccurs \<Rightarrow>
                    (let result2 =
                           (if numGreater maxOccurs 1
                            then setProp result1 (name @ ''$type'')
                                   (JArr [getProp result1 (name @ ''$type''),
                                          JNum minOccurs, JNum maxOccurs])
                            else result1);
                         result3 =
                           (if numGreater maxLength 0
                            then setProp result2 (name @ ''$length'')
                                   (JArr [JNum minLength, JNum maxLength])
                            else result2)
                     in Inr (JObj result3))))))"

text \<open>Lines 794-811: the loop over the element declarations of a complex type, with
  \<open>compile\<close> for the recursive call of line 796.\<close>

fun complexElements ::
  "(jsval \<Rightarrow> error + jsval) \<Rightarrow> jsval list \<Rightarrow> (string \<times> jsval) list
   \<Rightarrow> error + (string \<times> jsval) list" where
  "complexElements compile [] result = Inr result"
| "complexElements compile (subElement # elements) result =
     (case compile subElement of
        Inl e \<Rightarrow> Inl e
      | Inr subResult \<Rightarrow>
          (case subResult of
             JObj sub \<Rightarrow>
               (let result1 = foldl (\<lambda>r (key, v). setProp r key v) result sub
                in case ownProperty result1 ''$order'' of
                     Inl e \<Rightarrow> Inl e
                   | Inr has \<Rightarrow>
                       if has then
                         (case getProp result1 ''$order'' of
                            JArr order \<Rightarrow>
                              complexElements compile elements
                                (setProp result1 ''$order''
                                   (JArr (order @ [propOf subElement ''$name''])))
                          | _ \<Rightarrow> Inl TypeError)
                       else complexElements compile elements result1)
           | _ \<Rightarrow> Inl OutsideModel))"

text \<open>
  \<^verbatim>\<open>_elementToDefinition\<close> (lines 584-815). The first argument bounds the depth of the
  recursion: a type can refer to itself through the lookup table, and then JavaScript
  runs out of stack. \<^verbatim>\<open>attributeFormQualified\<close> is never read and is left out. The
  result is the object \<^verbatim>\<open>result\<close>, or \<^verbatim>\<open>undefined\<close> from the bare \<^verbatim>\<open>return\<close>
  of line 790.
\<close>

fun elementToDefinition ::
  "nat \<Rightarrow> string \<Rightarrow> jsval \<Rightarrow> jsval \<Rightarrow> bool \<Rightarrow> (string \<times> jsval) list \<Rightarrow> (string \<times> jsval) list
   \<Rightarrow> error + jsval" where
  "elementToDefinition 0 xsdType element targetNamespace elementFormQualified typeLookupMap
       namespaces' = Inl StackOverflow"
| "elementToDefinition (Suc fuel) xsdType element targetNamespace elementFormQualified
       typeLookupMap namespaces' =
     (case extractAndAddNamespaces element namespaces' of
        Inl e \<Rightarrow> Inl e
      | Inr elementNamespaces \<Rightarrow>
     (case reverseAliases [] elementNamespaces of
        Inl e \<Rightarrow> Inl e
      | Inr namespaceToAlias \<Rightarrow>
     if xsdType = ''element'' then
       (case toStringJS (propOf element ''$name'') of
          Inl e \<Rightarrow> Inl e
        | Inr name \<Rightarrow>
       if truthy (propOf element ''$type'') \<or> truthy (propOf element ''simpleType'') then
         (case extractType element of
            Inl e \<Rightarrow> Inl e
          | Inr (type, maxLength, minLength) \<Rightarrow>
              if type \<in> set [JStr ''object'', JStr ''any'', JStr ''empty''] then
                finishElement element name [] JUndefined namespaceToAlias targetNamespace
                  elementFormQualified maxLength minLength
              else
                (case resolveType 0 type maxLength minLength typeLookupMap elementNamespaces of
                   Inl e \<Rightarrow> Inl e
                 | Inr (r, mx, mn) \<Rightarrow>
                     (case r of
                        Primitive typeName \<Rightarrow>
                          finishElement element name [(name @ ''$type'', JStr typeName)]
                            JUndefined namespaceToAlias targetNamespace elementFormQualified
                            mx mn
                      | Reference subXsdType subElement \<Rightarrow>
                          (case elementToDefinition fuel subXsdType subElement targetNamespace
                                  elementFormQualified typeLookupMap elementNamespaces of
                             Inl e \<Rightarrow> Inl e
                           | Inr subResult \<Rightarrow>
                               finishElement element name [] subResult namespaceToAlias
                                 targetNamespace elementFormQualified mx mn)
                      | NotResolved \<Rightarrow>
                          finishElement element name [] JUndefined namespaceToAlias
                            targetNamespace elementFormQualified mx mn)))
       else if truthy (propOf element ''complexType'')
               \<and> (truthy (propOf (propOf element ''complexType'') ''all'')
                  \<or> truthy (propOf (propOf element ''complexType'') ''sequence'')) then
         (case elementToDefinition fuel ''complexType'' (propOf element ''complexType'')
                 targetNamespace elementFormQualified typeLookupMap elementNamespaces of
            Inl e \<Rightarrow> Inl e
          | Inr subResult \<Rightarrow>
              finishElement element name [] subResult namespaceToAlias targetNamespace
                elementFormQualified (IntNum 0) (IntNum 0))
       else
         (case hasOwn element ''complexType'' of
            Inl e \<Rightarrow> Inl e
          | Inr has \<Rightarrow>
              if has then
                finishElement element name [(name @ ''$type'', JStr ''empty'')] JUndefined
                  namespaceToAlias targetNamespace elementFormQualified (IntNum 0) (IntNum 0)
              else if objectKeys element = Inr [] then
                finishElement element name [(name @ ''$type'', JStr ''any'')] JUndefined
                  namespaceToAlias targetNamespace elementFormQualified (IntNum 0) (IntNum 0)
              else Inl UnknownElementStructure))
     else if xsdType = ''complexType'' then
       (if truthy (propOf element ''all'') then
          (case complexElements
                  (\<lambda>subElement. elementToDefinition fuel ''element'' subElement targetNamespace
                                  elementFormQualified typeLookupMap namespaces')
                  (case propOf (propOf element ''all'') ''element'' of
                     JArr elements \<Rightarrow> elements
                   | single \<Rightarrow> [single])
                  [] of
             Inl e \<Rightarrow> Inl e
           | Inr result \<Rightarrow> Inr (JObj result))
        else if truthy (propOf element ''sequence'') then
          (if truthy (propOf (propOf element ''sequence'') ''element'') then
             (case complexElements
                     (\<lambda>subElement. elementToDefinition fuel ''element'' subElement
                                     targetNamespace elementFormQualified typeLookupMap namespaces')
                     (case propOf (propOf element ''sequence'') ''element'' of
                        JArr elements \<Rightarrow> elements
                      | single \<Rightarrow> [single])
                     [(''$order'', JArr [])] of
                Inl e \<Rightarrow> Inl e
              | Inr result \<Rightarrow> Inr (JObj result))
           else
             (case hasOwn (propOf element ''sequence'') ''any'' of
                Inl e \<Rightarrow> Inl e
              | Inr has \<Rightarrow>
                  if has then Inr (JObj [(''$type'', JStr ''any''), (''$order'', JArr [])])
                  else Inl UnknownComplexTypeSequence))
        else Inr JUndefined)
     else Inr (JObj [])))"

subsection \<open>The schema\<close>

text \<open>Lines 505-520: the lookup table of the schema's top-level declarations. A value
  of \<^verbatim>\<open>schema[xsdType]\<close> that is truthy and no array has no \<^verbatim>\<open>forEach\<close>; an entry
  that is \<^verbatim>\<open>undefined\<close> or \<^verbatim>\<open>null\<close> has no \<^verbatim>\<open>$name\<close>.\<close>

fun registerTypes ::
  "string \<Rightarrow> string \<Rightarrow> jsval list \<Rightarrow> (string \<times> jsval) list \<Rightarrow> error + (string \<times> jsval) list"
  where
  "registerTypes xsdType alias [] typeLookupMap = Inr typeLookupMap"
| "registerTypes xsdType alias (type # types) typeLookupMap =
     (if type = JUndefined \<or> type = JNull then Inl TypeError
      else (case toStringJS (propOf type ''$name'') of
              Inl e \<Rightarrow> Inl e
            | Inr name \<Rightarrow>
                (let key = (if xsdType = ''element'' then [] else ''#'') @ alias @ '':'' @ name
                 in registerTypes xsdType alias types
                      (setProp (setProp typeLookupMap key type)
                         (key @ ''$xsdType'') (JStr xsdType)))))"

definition registerKind ::
  "jsval \<Rightarrow> string \<Rightarrow> string \<Rightarrow> (string \<times> jsval) list \<Rightarrow> error + (string \<times> jsval) list" where
  "registerKind schema alias xsdType typeLookupMap =
     (case propOf schema xsdType of
        JArr types \<Rightarrow> registerTypes xsdType alias types typeLookupMap
      | other \<Rightarrow> if truthy other then Inl TypeError else Inr typeLookupMap)"

text \<open>Lines 528-566: the loop over the schema's top-level elements, with \<open>compile\<close>
  for the call of line 544 and \<open>rootAlias\<close> for
  \<^verbatim>\<open>namespaceToAlias[targetNamespace].replace(/^xmlns:/, '')\<close>.\<close>

fun schemaElements ::
  "(jsval \<Rightarrow> (string \<times> jsval) list \<Rightarrow> error + jsval) \<Rightarrow> jsval \<Rightarrow> (string \<times> jsval) list
   \<Rightarrow> bool \<Rightarrow> string \<Rightarrow> jsval list \<Rightarrow> (string \<times> jsval) list \<Rightarrow> error + (string \<times> jsval) list"
  where
  "schemaElements compile schema schemaNamespaces elementFormQualified rootAlias [] result =
     Inr result"
| "schemaElements compile schema schemaNamespaces elementFormQualified rootAlias
       (element # elements) result =
     (case extractAndAddNamespaces schema schemaNamespaces of
        Inl e \<Rightarrow> Inl e
      | Inr elementNamespaces \<Rightarrow>
          if element = JUndefined \<or> element = JNull then Inl TypeError
          else
            (case toStringJS (propOf element ''$name'') of
               Inl e \<Rightarrow> Inl e
             | Inr name \<Rightarrow>
                 (let kept = filter (\<lambda>(key, v). key \<notin> set [''xmlns:tns'', ''xmlns:soap'',
                                                            ''xmlns:xs''])
                               elementNamespaces;
                      result1 = (if kept = [] then deleteProp result (name @ ''$attributes'')
                                 else setProp result (name @ ''$attributes'') (JObj kept))
                  in case compile element elementNamespaces of
                       Inl e \<Rightarrow> Inl e
                     | Inr definition \<Rightarrow>
                         (case definition of
                            JObj fs \<Rightarrow>
                              schemaElements compile schema schemaNamespaces
                                elementFormQualified rootAlias elements
                                (foldl (\<lambda>r (key, v).
                                          if elementFormQualified then setProp r key v
                                          else setProp (setProp r key v)
                                                 (key @ ''$namespace'') (JStr rootAlias))
                                   result1 fs)
                          | _ \<Rightarrow> Inl OutsideModel))))"

text \<open>\<^verbatim>\<open>_generateDefinitionXsd(schema, namespaces)\<close> (lines 484-569), with the bound
  on the depth of the recursion first. A target namespace that is the name of an
  inherited property finds that member as its alias, which is outside the model.\<close>

definition generateDefinitionXsd ::
  "nat \<Rightarrow> jsval \<Rightarrow> (string \<times> jsval) list \<Rightarrow> error + jsval" where
  "generateDefinitionXsd fuel schema namespaces' =
     (if schema = JUndefined \<or> schema = JNull then Inl TypeError
      else
        (case reverseAliases [(xsdNamespace, ''xmlns:xsd'')] namespaces' of
           Inl e \<Rightarrow> Inl e
         | Inr namespaceToAlias \<Rightarrow>
        (let targetNamespace =
               (if truthy (propOf schema ''$targetNamespace'')
                then propOf schema ''$targetNamespace'' else JStr xsdNamespace)
         in case toStringJS targetNamespace of
              Inl e \<Rightarrow> Inl e
            | Inr url \<Rightarrow>
         (case member namespaceToAlias url of
              Missing \<Rightarrow> Inl (NoAliasForTargetNamespace targetNamespace)
            | Inherited m \<Rightarrow> Inl OutsideModel
            | Own targetNamespaceAlias \<Rightarrow>
         if targetNamespaceAlias = [] then Inl (NoAliasForTargetNamespace targetNamespace)
         else
         (case registerKind schema targetNamespaceAlias ''simpleType'' [] of
              Inl e \<Rightarrow> Inl e
            | Inr lookup1 \<Rightarrow>
         (case registerKind schema targetNamespaceAlias ''complexType'' lookup1 of
              Inl e \<Rightarrow> Inl e
            | Inr lookup2 \<Rightarrow>
         (case registerKind schema targetNamespaceAlias ''element'' lookup2 of
              Inl e \<Rightarrow> Inl e
            | Inr typeLookupMap \<Rightarrow>
         (case extractAndAddNamespaces schema namespaces' of
              Inl e \<Rightarrow> Inl e
            | Inr schemaNamespaces \<Rightarrow>
         (case propOf schema ''element'' of
              JArr elements \<Rightarrow>
                (case schemaElements
                        (\<lambda>element elementNamespaces.
                           elementToDefinition fuel ''element'' element targetNamespace
                             (propOf schema ''$elementFormDefault'' = JStr ''qualified'')
                             typeLookupMap elementNamespaces)
                        schema schemaNamespaces
                        (propOf schema ''$elementFormDefault'' = JStr ''qualified'')
                        (stripXmlns targetNamespaceAlias) elements [] of
                   Inl e \<Rightarrow> Inl e
                 | Inr result \<Rightarrow> Inr (JObj result))
            | _ \<Rightarrow> Inl TypeError)))))))))"

section \<open>Definition inference from an example\<close>

text \<open>The regular expressions of lines 456-469: \<^verbatim>\<open>/^\d+$/\<close>, \<^verbatim>\<open>/^\d+\.\d+$/\<close>,
  \<^verbatim>\<open>/^[0-9A-Fa-f]{8,}$/\<close> and the base64 pattern (groups of four characters of
  the alphabet, the last group padded with one or two \<^verbatim>\<open>=\<close>).\<close>

definition allDigits :: "string \<Rightarrow> bool" where
  "allDigits s = (s \<noteq> [] \<and> list_all isDigit s)"

definition digitsDotDigits :: "string \<Rightarrow> bool" where
  "digitsDotDigits s =
     (takeWhile isDigit s \<noteq> []
      \<and> (case dropWhile isDigit s of
            [] \<Rightarrow> False
          | c # rest \<Rightarrow> c = CHR ''.'' \<and> allDigits rest))"

definition hexLooking :: "string \<Rightarrow> bool" where
  "hexLooking s = (8 \<le> length s \<and> list_all (\<lambda>c. hexDigitValue c \<noteq> None) s)"

definition base64Char :: "char \<Rightarrow> bool" where
  "base64Char c =
     (c \<in> set ''ABCDEFGHIJKLMNOPQRSTUVWXYZabcdefghijklmnopqrstuvwxyz0123456789+/'')"

definition base64Looking :: "string \<Rightarrow> bool" where
  "base64Looking s =
     (let n = length s; body = take (n - 4) s; final = drop (n - 4) s
      in 4 \<le> n \<and> n mod 4 = 0 \<and> list_all base64Char body
         \<and> (list_all base64Char final
            \<or> (list_all base64Char (take 3 final) \<and> drop 3 final = ''='')
            \<or> (list_all base64Char (take 2 final) \<and> drop 2 final = ''=='')))"

text \<open>Lines 454-474: the type guessed for a text that is not empty.\<close>

definition guessType :: "bool \<Rightarrow> string \<Rightarrow> string" where
  "guessType guessBase64Binary value =
     (if value = ''true'' \<or> value = ''false'' then ''boolean''
      else if allDigits value then ''int''
      else if digitsDotDigits value then ''float''
      else if guessBase64Binary \<and> hexLooking value then ''hexBinary''
      else if guessBase64Binary \<and> base64Looking value then ''base64Binary''
      else ''string'')"

text \<open>\<^verbatim>\<open>key.indexOf('$') > 0\<close>.\<close>

definition decorated :: "string \<Rightarrow> bool" where
  "decorated key = (case key of [] \<Rightarrow> False | c # rest \<Rightarrow> c \<noteq> CHR ''$'' \<and> CHR ''$'' \<in> set rest)"

text \<open>
  \<^verbatim>\<open>_generateDefinitionXml(obj, options)\<close> (lines 426-481). The function changes
  \<^verbatim>\<open>obj\<close>, so the model returns the definition together with \<^verbatim>\<open>obj\<close> as the call
  leaves it. \<open>generateDefinitionKeys\<close> is the loop over \<^verbatim>\<open>Object.keys(obj)\<close>: its
  second argument holds the keys still to visit, each with the value \<^verbatim>\<open>obj[key]\<close>
  (a step changes the entry of its own key only), then come \<^verbatim>\<open>definition\<close> and
  \<^verbatim>\<open>obj\<close> as they stand. The script is in strict mode, where deleting a character
  of a string throws; arrays with deleted elements are outside the model.
\<close>

fun generateDefinitionXml ::
      "bool \<Rightarrow> jsval \<Rightarrow> error + ((string \<times> jsval) list \<times> jsval)"
  and generateDefinitionKeys ::
      "bool \<Rightarrow> (string \<times> jsval) list \<Rightarrow> (string \<times> jsval) list \<Rightarrow> (string \<times> jsval) list
       \<Rightarrow> error + ((string \<times> jsval) list \<times> (string \<times> jsval) list)" where
  "generateDefinitionXml g (JObj fs) =
     (case generateDefinitionKeys g fs [] fs of
        Inl e \<Rightarrow> Inl e
      | Inr (definition, obj) \<Rightarrow> Inr (definition, JObj obj))"
| "generateDefinitionXml g JUndefined = Inl TypeError"
| "generateDefinitionXml g JNull = Inl TypeError"
| "generateDefinitionXml g (JBool b) = Inr ([], JBool b)"
| "generateDefinitionXml g (JNum n) = Inr ([], JNum n)"
| "generateDefinitionXml g (JStr s) = (if s = [] then Inr ([], JStr s) else Inl TypeError)"
| "generateDefinitionXml g (JArr xs) = (if xs = [] then Inr ([], JArr xs) else Inl OutsideModel)"
| "generateDefinitionXml g (JBuffer enc s) = Inl OutsideModel"
| "generateDefinitionKeys g [] definition obj = Inr (definition, obj)"
| "generateDefinitionKeys g ((key, value) # rest) definition obj =
     (if decorated key then generateDefinitionKeys g rest (setProp definition key value) obj
      else if typeofObject value then
        (case value of
           JArr xs \<Rightarrow>
             (case xs of
                [] \<Rightarrow>
                  generateDefinitionKeys g rest (setProp definition (key @ ''$type'') (JArr [])) obj
              | x # others \<Rightarrow>
                  (case generateDefinitionXml g (JObj [(key, x)]) of
                     Inl e \<Rightarrow> Inl e
                   | Inr (subDefinition, wrapper) \<Rightarrow>
                       generateDefinitionKeys g rest
                         (if truthy (getProp subDefinition (key @ ''$type''))
                          then setProp definition (key @ ''$type'')
                                 (JArr [getProp subDefinition (key @ ''$type'')])
                          else if truthy (getProp subDefinition key)
                          then setProp (setProp definition (key @ ''$type'') (JArr [])) key
                                 (getProp subDefinition key)
                          else setProp definition (key @ ''$type'') (JArr []))
                         (setProp obj key
                            (JArr ((if typeofObject x then propOf wrapper key else x) # others)))))
         | _ \<Rightarrow>
             (case generateDefinitionXml g value of
                Inl e \<Rightarrow> Inl e
              | Inr (subDefinition, value') \<Rightarrow>
                  generateDefinitionKeys g rest (setProp definition key (JObj subDefinition))
                    (setProp obj key value')))
      else
        (case value of
           JUndefined \<Rightarrow> generateDefinitionKeys g rest definition (deleteProp obj key)
         | JStr s \<Rightarrow>
             generateDefinitionKeys g rest
               (if s = [] then definition
                else setProp definition (key @ ''$type'') (JStr (guessType g s)))
               (deleteProp obj key)
         | _ \<Rightarrow> Inl TypeError))"

section \<open>Sample generation\<close>

text \<open>\<^verbatim>\<open>' '.repeat(length)\<close>: the count is \<^verbatim>\<open>length\<close> as an integer, and a negative
  count throws. Counts that are strings or objects are outside the model, and so is the
  host's limit on the length of a string.\<close>

definition repeatSpace :: "jsval \<Rightarrow> error + jsval" where
  "repeatSpace len =
     (case len of
        JUndefined \<Rightarrow> Inr (JStr [])
      | JNull \<Rightarrow> Inr (JStr [])
      | JBool b \<Rightarrow> Inr (JStr (if b then '' '' else []))
      | JNum n \<Rightarrow>
          (case n of
             NaN \<Rightarrow> Inr (JStr [])
           | IntNum i \<Rightarrow> if i < 0 then Inl RangeError else Inr (JStr (replicate (nat i) CHR '' ''))
           | MAX_VALUE \<Rightarrow> Inl RangeError)
      | _ \<Rightarrow> Inl OutsideModel)"

text \<open>\<^verbatim>\<open>_generateXsdTypeSample(type, length)\<close> (lines 855-911).\<close>

definition generateXsdTypeSample :: "jsval \<Rightarrow> jsval \<Rightarrow> error + jsval" where
  "generateXsdTypeSample type len =
     (if type = JStr ''boolean'' then Inr (JBool True)
      else if type \<in> set (map JStr [''base64Binary'', ''hexBinary'', ''normalizedString'',
                ''string'', ''token'']) then repeatSpace len
      else if type = JStr ''anyURI'' then Inr (JStr ''http://sample.com'')
      else if type = JStr ''language'' then Inr (JStr ''en'')
      else if type \<in> set (map JStr [''byte'', ''decimal'', ''double'', ''float'', ''int'',
                ''integer'', ''long'', ''short'', ''unsignedByte'', ''unsignedInt'',
                ''unsignedLong'', ''unsignedShort'']) then Inr (JNum (IntNum 0))
      else if type = JStr ''negativeInteger'' then Inr (JNum (IntNum (- 1)))
      else if type = JStr ''nonNegativeInteger'' then Inr (JNum (IntNum 1))
      else if type = JStr ''nonPositiveInteger'' then Inr (JNum (IntNum (- 1)))
      else if type = JStr ''empty'' then Inr (JStr [])
      else if type = JStr ''any'' then Inr (JObj [])
      else Inl (UnknownXsdType type))"

text \<open>\<^verbatim>\<open>new Array(n).fill(value)\<close>: a number must be an integer from 0 below
  \<open>2^32\<close>; any other value becomes the single element of the array, which
  \<^verbatim>\<open>fill\<close> then overwrites.\<close>

definition newArrayFill :: "jsval \<Rightarrow> jsval \<Rightarrow> error + jsval" where
  "newArrayFill n value =
     (case n of
        JNum k \<Rightarrow>
          (case k of
             IntNum i \<Rightarrow>
               if 0 \<le> i \<and> i < 2 ^ 32 then Inr (JArr (replicate (nat i) value))
               else Inl RangeError
           | _ \<Rightarrow> Inl RangeError)
      | _ \<Rightarrow> Inr (JArr [value]))"

text \<open>
  \<^verbatim>\<open>_generateSample(definition)\<close> (lines 833-853). \<open>generateSampleKeys\<close> is the loop
  over the keys of an object, with the whole definition, the entries still to visit and
  \<^verbatim>\<open>result\<close>; \<open>generateSampleItems\<close> is the same loop over the indices of an array,
  whose keys have no \<^verbatim>\<open>$\<close>. An object assigned to \<^verbatim>\<open>result['__proto__']\<close> would
  replace the prototype of \<^verbatim>\<open>result\<close>, which is outside the model.
\<close>

fun generateSample' :: "jsval \<Rightarrow> error + jsval"
  and generateSampleKeys ::
      "(string \<times> jsval) list \<Rightarrow> (string \<times> jsval) list \<Rightarrow> (string \<times> jsval) list
       \<Rightarrow> error + (string \<times> jsval) list"
  and generateSampleItems ::
      "nat \<Rightarrow> jsval list \<Rightarrow> (string \<times> jsval) list \<Rightarrow> error + (string \<times> jsval) list" where
  "generateSample' (JObj fs) =
     (case generateSampleKeys fs fs [] of Inl e \<Rightarrow> Inl e | Inr result \<Rightarrow> Inr (JObj result))"
| "generateSample' (JArr xs) =
     (case generateSampleItems 0 xs [] of Inl e \<Rightarrow> Inl e | Inr result \<Rightarrow> Inr (JObj result))"
| "generateSample' JUndefined = Inl TypeError"
| "generateSample' JNull = Inl TypeError"
| "generateSample' (JBool b) = Inr (JObj [])"
| "generateSample' (JNum n) = Inr (JObj [])"
| "generateSample' (JStr s) = Inr (JObj [])"
| "generateSample' (JBuffer enc s) = Inl OutsideModel"
| "generateSampleKeys definition [] result = Inr result"
| "generateSampleKeys definition ((key, value) # rest) result =
     (if endsWith key ''$type'' then
        (let keyName = take (length key - 5) key;
             len = (if truthy (getProp definition (keyName @ ''$length''))
                    then getProp definition (keyName @ ''$length'')
                    else JArr [JNum (IntNum 1), JNum (IntNum 1)])
         in if isArray value then
              (case generateXsdTypeSample (propOf value ''0'') (propOf len ''1'') of
                 Inl e \<Rightarrow> Inl e
               | Inr v \<Rightarrow>
                   (case newArrayFill (propOf value ''2'') v of
                      Inl e \<Rightarrow> Inl e
                    | Inr filled \<Rightarrow>
                        if keyName = ''__proto__'' then Inl OutsideModel
                        else generateSampleKeys definition rest
                               (setProp result keyName filled)))
            else
              (case generateXsdTypeSample value (propOf len ''1'') of
                 Inl e \<Rightarrow> Inl e
               | Inr v \<Rightarrow>
                   if keyName = ''__proto__'' \<and> typeofObject v then Inl OutsideModel
                   else generateSampleKeys definition rest (assign result keyName v)))
      else if CHR ''$'' \<notin> set key \<and> typeofObject value then
        (case generateSample' value of
           Inl e \<Rightarrow> Inl e
         | Inr v \<Rightarrow>
             if key = ''__proto__'' then Inl OutsideModel
             else generateSampleKeys definition rest (setProp result key v))
      else generateSampleKeys definition rest result)"
| "generateSampleItems i [] result = Inr result"
| "generateSampleItems i (value # rest) result =
     (if typeofObject value then
        (case generateSample' value of
           Inl e \<Rightarrow> Inl e
         | Inr v \<Rightarrow> generateSampleItems (Suc i) rest (setProp result (showNat i) v))
      else generateSampleItems (Suc i) rest result)"

text \<open>\<^verbatim>\<open>generateSample(rootName, definition)\<close> (lines 34-38). \<^verbatim>\<open>definition[rootName]\<close>
  can be an inherited member, which has no keys of its own; what an array, a string, a
  number or a boolean inherits is outside the model. The computed key of the object
  literal is an own property of the result under every name.\<close>

definition generateSample :: "string \<Rightarrow> jsval \<Rightarrow> error + jsval" where
  "generateSample rootName definition =
     (case (case definition of
              JUndefined \<Rightarrow> Inl TypeError
            | JNull \<Rightarrow> Inl TypeError
            | JObj fs \<Rightarrow>
                (case member fs rootName of
                   Own v \<Rightarrow> generateSample' v
                 | Inherited m \<Rightarrow> Inr (JObj [])
                 | Missing \<Rightarrow> Inl TypeError)
            | JArr xs \<Rightarrow>
                if rootName = ''length'' \<or> arrayIndex rootName \<noteq> None
                then generateSample' (propOf definition rootName)
                else Inl OutsideModel
            | JStr s \<Rightarrow>
                if rootName = ''length'' \<or> arrayIndex rootName \<noteq> None
                then generateSample' (propOf definition rootName)
                else Inl OutsideModel
            | _ \<Rightarrow> Inl OutsideModel) of
        Inl e \<Rightarrow> Inl e
      | Inr v \<Rightarrow> Inr (JObj [(rootName, v)]))"

section \<open>The public functions\<close>

text \<open>\<^verbatim>\<open>generateDefinition(xmlOrObj, type, namespaces, options)\<close> (lines 40-72). The
  first argument is the text of a document, given as its tree, or any other value. The
  result is the definition together with the value that was passed, as the call leaves
  it. The first argument of the model bounds the depth of the XSD compiler's
  recursion.\<close>

datatype source = XmlText xml | Value jsval

definition xsdDefinition :: jsval where
  "xsdDefinition =
     JObj [(''schema'', JObj [(''element$type'', JArr []), (''simpleType$type'', JArr []),
                              (''complexType$type'', JArr [])])]"

definition generateDefinition ::
  "nat \<Rightarrow> source \<Rightarrow> string \<Rightarrow> (string \<times> jsval) list \<Rightarrow> bool \<Rightarrow> error + (jsval \<times> source)" where
  "generateDefinition fuel xmlOrObj type namespaces' guessBase64Binary =
     (if type = ''xml'' then
        (case (case xmlOrObj of
                 XmlText doc \<Rightarrow> fromXml' doc JNull False False
               | Value v \<Rightarrow> Inr v) of
           Inl e \<Rightarrow> Inl e
         | Inr obj \<Rightarrow>
             (case generateDefinitionXml guessBase64Binary obj of
                Inl e \<Rightarrow> Inl e
              | Inr (definition, obj') \<Rightarrow>
                  Inr (JObj definition,
                       case xmlOrObj of XmlText doc \<Rightarrow> XmlText doc | Value v \<Rightarrow> Value obj')))
      else if type = ''xsd'' then
        (case (case xmlOrObj of
                 XmlText doc \<Rightarrow>
                   (case fromXml' doc xsdDefinition True False of
                      Inl e \<Rightarrow> Inl e
                    | Inr parsed \<Rightarrow> Inr (propOf parsed ''schema''))
               | Value v \<Rightarrow> Inr v) of
           Inl e \<Rightarrow> Inl e
         | Inr obj \<Rightarrow>
             (case generateDefinitionXsd fuel obj namespaces' of
                Inl e \<Rightarrow> Inl e
              | Inr definition \<Rightarrow> Inr (definition, xmlOrObj)))
      else Inl (UnknownDefinitionType (JStr type)))"

section \<open>Stringification\<close>


section \<open>Example inputs\<close>

text \<open>The schema
  \<^verbatim>\<open><xs:schema xmlns:xs="http://www.w3.org/2001/XMLSchema"><xs:element name="age"
  minOccurs="0" maxOccurs="..."><xs:simpleType><xs:restriction base="xs:int"/>
  </xs:simpleType></xs:element></xs:schema>\<close>, and its \<^verbatim>\<open>element\<close> as the parsing
  engine hands it to the compiler.\<close>

definition ageSchema :: "string \<Rightarrow> xml" where
  "ageSchema maxOccurs =
     Element ''xs:schema'' [(''xmlns:xs'', ''http://www.w3.org/2001/XMLSchema'')]
       [Element ''xs:element''
          [(''name'', ''age''), (''minOccurs'', ''0''), (''maxOccurs'', maxOccurs)]
          [Element ''xs:simpleType'' []
             [Element ''xs:restriction'' [(''base'', ''xs:int'')] []]]]"

definition ageElement :: "string \<Rightarrow> jsval" where
  "ageElement maxOccurs =
     JObj [(''namespace$'', JStr ''xs''), (''$name'', JStr ''age''),
           (''$minOccurs'', JStr ''0''), (''$maxOccurs'', JStr maxOccurs),
           (''simpleType'',
            JObj [(''namespace$'', JStr ''xs''),
                  (''restriction'',
                   JObj [(''namespace$'', JStr ''xs''), (''$base'', JStr ''xs:int'')])]),
           (''$'', JStr [])]"

text \<open>\<^verbatim>\<open><r><a><b/></a><a><b/></a></r>\<close> and \<^verbatim>\<open><r><a><b/></a></r>\<close>.\<close>

definition twoSiblings :: xml where
  "twoSiblings =
     Element ''r'' [] [Element ''a'' [] [Element ''b'' [] []],
                       Element ''a'' [] [Element ''b'' [] []]]"

definition oneChild :: xml where
  "oneChild = Element ''r'' [] [Element ''a'' [] [Element ''b'' [] []]]"

text \<open>A schema whose simple types refer to each other, \<^verbatim>\<open>A\<close> to \<^verbatim>\<open>B\<close> to \<^verbatim>\<open>C\<close> to
  \<^verbatim>\<open>xs:int\<close>, with a simple type \<^verbatim>\<open>Q\<close> that refers to the complex type \<^verbatim>\<open>P\<close> and
  an element \<^verbatim>\<open>age\<close> of a given type; and its lookup table, namespaces and element,
  reduced to what the compiler reads.\<close>

definition chainSchema :: "string \<Rightarrow> xml" where
  "chainSchema reference =
     Element ''xs:schema''
       [(''xmlns:xs'', ''http://www.w3.org/2001/XMLSchema''), (''xmlns:tns'', ''urn:t''),
        (''targetNamespace'', ''urn:t'')]
       [Element ''xs:simpleType'' [(''name'', ''A'')]
          [Element ''xs:restriction'' [(''base'', ''tns:B'')] []],
        Element ''xs:simpleType'' [(''name'', ''B'')]
          [Element ''xs:restriction'' [(''base'', ''tns:C'')] []],
        Element ''xs:simpleType'' [(''name'', ''C'')]
          [Element ''xs:restriction'' [(''base'', ''xs:int'')] []],
        Element ''xs:simpleType'' [(''name'', ''Q'')]
          [Element ''xs:restriction'' [(''base'', ''tns:P'')] []],
        Element ''xs:complexType'' [(''name'', ''P'')]
          [Element ''xs:sequence'' []
             [Element ''xs:element'' [(''name'', ''nick''), (''type'', ''xs:string'')] []]],
        Element ''xs:element'' [(''name'', ''age''), (''type'', reference)] []]"

definition chainLookup :: "(string \<times> jsval) list" where
  "chainLookup =
     [(''#xmlns:tns:A'', JObj [(''$name'', JStr ''A''),
                              (''restriction'', JObj [(''$base'', JStr ''tns:B'')])]),
      (''#xmlns:tns:A$xsdType'', JStr ''simpleType''),
      (''#xmlns:tns:B'', JObj [(''$name'', JStr ''B''),
                              (''restriction'', JObj [(''$base'', JStr ''tns:C'')])]),
      (''#xmlns:tns:B$xsdType'', JStr ''simpleType''),
      (''#xmlns:tns:C'', JObj [(''$name'', JStr ''C''),
                              (''restriction'', JObj [(''$base'', JStr ''xs:int'')])]),
      (''#xmlns:tns:C$xsdType'', JStr ''simpleType''),
      (''#xmlns:tns:Q'', JObj [(''$name'', JStr ''Q''),
                              (''restriction'', JObj [(''$base'', JStr ''tns:P'')])]),
      (''#xmlns:tns:Q$xsdType'', JStr ''simpleType''),
      (''#xmlns:tns:P'',
       JObj [(''$name'', JStr ''P''),
             (''sequence'',
              JObj [(''element'',
                     JObj [(''$name'', JStr ''nick''), (''$type'', JStr ''xs:string'')])])]),
      (''#xmlns:tns:P$xsdType'', JStr ''complexType'')]"

definition chainNamespaces :: "(string \<times> jsval) list" where
  "chainNamespaces = [(''xmlns:xs'', JStr xsdNamespace), (''xmlns:tns'', JStr ''urn:t'')]"

definition chainElement :: "string \<Rightarrow> jsval" where
  "chainElement reference = JObj [(''$name'', JStr ''age''), (''$type'', JStr reference)]"

text \<open>\<^verbatim>\<open><a xmlns:ns="urn:x"><ns:b/></a>\<close>, and the definitions that give \<^verbatim>\<open>b\<close> the
  namespace alias \<open>t\<close> and bind \<open>t\<close> to the URL \<open>u\<close> in the namespace attributes of
  \<^verbatim>\<open>a\<close> or of \<^verbatim>\<open>b\<close>.\<close>

definition nsDocument :: xml where
  "nsDocument = Element ''a'' [(''xmlns:ns'', ''urn:x'')] [Element ''ns:b'' [] []]"

definition nsDefinition :: "string \<Rightarrow> string \<Rightarrow> jsval" where
  "nsDefinition t u =
     JObj [(''a$attributes'', JObj [(''xmlns:'' @ t, JStr u)]),
           (''a'', JObj [(''b$namespace'', JStr t)])]"

definition nsDefinitionAtChild :: "string \<Rightarrow> string \<Rightarrow> jsval" where
  "nsDefinitionAtChild t u =
     JObj [(''a'', JObj [(''b$attributes'', JObj [(''xmlns:'' @ t, JStr u)]),
                        (''b$namespace'', JStr t)])]"

section \<open>Coercion of unknown type names\<close>

lemma convertFromXsdType_name:
  "convertFromXsdType (JStr t) v =
     (if endsWith t ''?'' \<and> list_all isWhite v then Inr JNull
      else if stripNullable t = ''boolean'' then Inr (JBool (v = ''true''))
      else if stripNullable t \<in> set floatTypes then
        (case parseFloatString v of Inl e \<Rightarrow> Inl e | Inr n \<Rightarrow> Inr (JNum n))
      else if stripNullable t \<in> set integerTypes then
        (case hostNumber (parseIntString v) of Inl e \<Rightarrow> Inl e | Inr n \<Rightarrow> Inr (JNum n))
      else if stripNullable t = ''base64Binary'' then Inr (JBuffer ''base64'' v)
      else if stripNullable t = ''hexBinary'' then Inr (JBuffer ''hex'' v)
      else Inr (JStr v))"
proof (cases "endsWith t ''?''")
  case True
  then have "t \<noteq> []"
    by (auto simp: endsWith_def)
  with True show ?thesis
    by (simp add: convertFromXsdType_def stripNullable_def truthy_def isString_def image_iff)
next
  case False
  then show ?thesis
    by (simp add: convertFromXsdType_def stripNullable_def truthy_def isString_def image_iff)
qed

text \<open>
  C1 (as stated, refuted). The claim: a type name that matches none of the known XSD
  primitive types makes the coercion fail. The name \<^verbatim>\<open>frobnicate\<close> is in no row of
  the type table, and the coercion returns the text it was given.
\<close>

theorem C1_frobnicate_is_returned:
  "xsdTypeLookup (JStr ''frobnicate'') = Inl (UnknownXsdType (JStr ''frobnicate''))
   \<and> convertFromXsdType (JStr ''frobnicate'') ''42'' = Inr (JStr ''42'')"
  by (simp add: xsdTypeLookup_def convertFromXsdType_name stripNullable_def endsWith_def
      floatTypes_def integerTypes_def)

text \<open>
  C1 (amended). For every type name that, without its nullable marker, the type table
  does not know, the coercion never fails: it returns \<^verbatim>\<open>null\<close> when the name ends
  with the nullable marker and the text is blank, and the text unchanged otherwise.
\<close>

theorem C1_unknown_type_is_identity:
  assumes "xsdTypeLookup (JStr (stripNullable t)) = Inl (UnknownXsdType (JStr (stripNullable t)))"
  shows "convertFromXsdType (JStr t) v =
           Inr (if endsWith t ''?'' \<and> list_all isWhite v then JNull else JStr v)"
  using assms
  by (simp add: xsdTypeLookup_def convertFromXsdType_name floatTypes_def integerTypes_def
      split: if_splits)

theorem C1_unknown_type_is_identity_witness:
  "convertFromXsdType (JStr ''frobnicate?'') ''abc'' = Inr (JStr ''abc'')
   \<and> convertFromXsdType (JStr ''frobnicate?'') '' '' = Inr JNull"
  using C1_unknown_type_is_identity [of "''frobnicate?''" "''abc''"]
        C1_unknown_type_is_identity [of "''frobnicate?''" "'' ''"]
  by (simp add: xsdTypeLookup_def stripNullable_def endsWith_def isWhite_def)

section \<open>Compiling \<^verbatim>\<open>maxOccurs="unbounded"\<close>\<close>

text \<open>
  C2 (the code at the failing input). The claim: \<^verbatim>\<open>maxOccurs="unbounded"\<close> maps to
  a sentinel maximum and the fragment is array-typed, so that the element \<^verbatim>\<open>age\<close>
  with base \<^verbatim>\<open>xs:int\<close>, \<^verbatim>\<open>minOccurs="0"\<close> and \<^verbatim>\<open>maxOccurs="unbounded"\<close> compiles to
  \<^verbatim>\<open>{age$type: ["int", 0, sentinel]}\<close>. The code passes \<^verbatim>\<open>Number.MAX_VALUE\<close>
  through \<^verbatim>\<open>parseInt(..., 10)\<close>, which reads the \<^verbatim>\<open>1\<close> of its text
  \<^verbatim>\<open>1.7976931348623157e+308\<close>; \<^verbatim>\<open>maxOccurs > 1\<close> is then false and the fragment
  is the plain \<^verbatim>\<open>{age$type: "int"}\<close>, at the compiler and at
  \<^verbatim>\<open>generateDefinition\<close>. With \<^verbatim>\<open>maxOccurs="5"\<close> the same element is array-typed.
\<close>

theorem C2_unbounded_is_not_array_typed:
  "parseInt10 (JNum MAX_VALUE) = Inr (IntNum 1)
   \<and> fromXml' (ageSchema ''unbounded'') xsdDefinition True False
       = Inr (JObj [(''schema'',
                     JObj [(''namespace$'', JStr ''xs''),
                           (''$xmlns:xs'', JStr ''http://www.w3.org/2001/XMLSchema''),
                           (''element'', JArr [ageElement ''unbounded''])])])
   \<and> elementToDefinition 5 ''element'' (ageElement ''unbounded'') (JStr xsdNamespace) False []
         [(''xmlns:xs'', JStr xsdNamespace)]
       = Inr (JObj [(''age$type'', JStr ''int'')])
   \<and> generateDefinition 5 (XmlText (ageSchema ''unbounded'')) ''xsd'' [] False
       = Inr (JObj [(''age$type'', JStr ''int''), (''age$type$namespace'', JStr ''xsd'')],
              XmlText (ageSchema ''unbounded''))
   \<and> elementToDefinition 5 ''element'' (ageElement ''5'') (JStr xsdNamespace) False []
         [(''xmlns:xs'', JStr xsdNamespace)]
       = Inr (JObj [(''age$type'', JArr [JStr ''int'', JNum (IntNum 0), JNum (IntNum 5)])])"
  by code_simp

section \<open>Array promotion\<close>

text \<open>
  C3 (the code at the failing input). The claim: two sibling elements with the same
  name give a two-element array whose entries are what parsing each occurrence alone
  gives. For \<^verbatim>\<open><r><a><b/></a><a><b/></a></r>\<close> the second entry carries a \<^verbatim>\<open>$\<close> key
  with the empty text, which the element parsed alone does not have: the array branch
  of the end tag (lines 281-290) sets \<^verbatim>\<open>$\<close> without the test for blank text that
  the branch for a single object makes (line 299).
\<close>

theorem C3_second_sibling_gets_text_key:
  "fromXml twoSiblings JUndefined True True
     = Inr (JObj [(''r'', JObj [(''a'', JArr [JObj [(''b'', JStr [])],
                                             JObj [(''b'', JStr []), (''$'', JStr [])]])])])
   \<and> fromXml oneChild JUndefined True True
     = Inr (JObj [(''r'', JObj [(''a'', JObj [(''b'', JStr [])])])])"
  by code_simp

section \<open>The order of the children\<close>

text \<open>
  C4 (the code at the failing input). The claim: against a definition with
  \<^verbatim>\<open>E$order = ["a","b"]\<close>, the children \<^verbatim>\<open>a\<close> then \<^verbatim>\<open>b\<close> leave no \<^verbatim>\<open>E$order\<close> on the
  object of \<^verbatim>\<open>E\<close>'s parent, and the children \<^verbatim>\<open>b\<close> then \<^verbatim>\<open>a\<close> leave
  \<^verbatim>\<open>E$order = ["b","a"]\<close>. The first two parses below do so. In the third the definition
  also declares \<^verbatim>\<open>a\<close> array-typed: the start tag stores the array under \<^verbatim>\<open>a\<close> (line
  229) before the order is saved, the test of line 238 then finds an array and leaves
  \<^verbatim>\<open>a\<close> out, the order seen is \<^verbatim>\<open>["b"]\<close>, and \<^verbatim>\<open><E><b>1</b><a>2</a></E>\<close> gets no
  \<^verbatim>\<open>E$order\<close> at all. The branch for the first child (line 237) records an array-typed
  \<^verbatim>\<open>a\<close>, as the fourth parse shows.
\<close>

theorem C4_array_typed_child_is_not_ordered:
  "fromXml (Element ''E'' [] [Element ''a'' [] [Text ''1''], Element ''b'' [] [Text ''2'']])
     (JObj [(''E$order'', JArr [JStr ''a'', JStr ''b''])]) True True
     = Inr (JObj [(''E'', JObj [(''a'', JStr ''1''), (''b'', JStr ''2'')])])
   \<and> fromXml (Element ''E'' [] [Element ''b'' [] [Text ''1''], Element ''a'' [] [Text ''2'']])
       (JObj [(''E$order'', JArr [JStr ''a'', JStr ''b''])]) True True
     = Inr (JObj [(''E'', JObj [(''b'', JStr ''1''), (''a'', JStr ''2'')]),
                  (''E$order'', JArr [JStr ''b'', JStr ''a''])])
   \<and> fromXml (Element ''E'' [] [Element ''b'' [] [Text ''1''], Element ''a'' [] [Text ''2'']])
       (JObj [(''E$order'', JArr [JStr ''a'', JStr ''b'']),
              (''E'', JObj [(''a$type'', JArr [JStr ''int''])])]) True True
     = Inr (JObj [(''E'', JObj [(''b'', JStr ''1''), (''a'', JArr [JNum (IntNum 2)])])])
   \<and> fromXml (Element ''E'' [] [Element ''a'' [] [Text ''2''], Element ''b'' [] [Text ''1'']])
       (JObj [(''E$order'', JArr [JStr ''b'', JStr ''a'']),
              (''E'', JObj [(''a$type'', JArr [JStr ''int''])])]) True True
     = Inr (JObj [(''E'', JObj [(''a'', JArr [JNum (IntNum 2)]), (''b'', JStr ''1'')]),
                  (''E$order'', JArr [JStr ''a'', JStr ''b''])])"
  by code_simp

section \<open>The scalar round trip\<close>




















section \<open>Sample generation under a root name\<close>

text \<open>
  C10 (as stated, refuted). The claim: \<^verbatim>\<open>generateSample\<close> returns a value only when
  \<^verbatim>\<open>definition[rootName]\<close> is an object, and fails for every root name that is not a
  key of the definition. For a string, \<^verbatim>\<open>Object.keys\<close> lists its indices, no index
  ends in \<^verbatim>\<open>$type\<close> or holds an object, and the call returns \<^verbatim>\<open>{x: {}}\<close>. The name
  \<^verbatim>\<open>toString\<close> is no key of the empty definition, \<^verbatim>\<open>definition[rootName]\<close> is then the
  function that every object inherits, which has no keys, and the call returns
  \<^verbatim>\<open>{toString: {}}\<close>.
\<close>

theorem C10_string_subdefinition_is_sampled:
  "propOf (JObj [(''x'', JStr ''abc'')]) ''x'' = JStr ''abc''
   \<and> \<not> typeofObject (JStr ''abc'')
   \<and> generateSample ''x'' (JObj [(''x'', JStr ''abc'')]) = Inr (JObj [(''x'', JObj [])])
   \<and> \<not> hasOwnProperty [] ''toString''
   \<and> generateSample ''toString'' (JObj []) = Inr (JObj [(''toString'', JObj [])])"
  by (simp add: generateSample_def propOf_def getProp_def typeofObject_def member_def
      hasOwnProperty_def objectPrototype_def)

text \<open>
  C10 (amended). \<^verbatim>\<open>generateSample(rootName, definition)\<close> returns a value only when
  \<^verbatim>\<open>definition[rootName]\<close> is neither \<^verbatim>\<open>undefined\<close> nor \<^verbatim>\<open>null\<close>; for a definition
  object the value is then the sample of its own property of that name under the root
  name, and \<^verbatim>\<open>{rootName: {}}\<close> when the name is not its own but one that every object
  inherits. For every root name that is neither a key of the definition object nor an
  inherited name the call fails with a TypeError instead of returning
  \<^verbatim>\<open>{rootName: {}}\<close>.
\<close>

theorem C10_generateSample_needs_subdefinition:
  "(generateSample rootName definition = Inr v \<longrightarrow>
      definition \<noteq> JUndefined \<and> definition \<noteq> JNull
      \<and> (\<exists>sample. v = JObj [(rootName, sample)]
             \<and> (\<forall>fs. definition = JObj fs \<longrightarrow>
                    (case member fs rootName of
                       Own sub \<Rightarrow>
                         sub \<noteq> JUndefined \<and> sub \<noteq> JNull \<and> generateSample' sub = Inr sample
                     | Inherited m \<Rightarrow> sample = JObj []
                     | Missing \<Rightarrow> False))))
   \<and> (\<not> hasOwnProperty fs rootName \<longrightarrow>
        generateSample rootName (JObj fs)
          = (if rootName \<in> set objectPrototype then Inr (JObj [(rootName, JObj [])])
             else Inl TypeError))"
proof (intro conjI impI)
  assume r: "generateSample rootName definition = Inr v"
  then show "definition \<noteq> JUndefined" "definition \<noteq> JNull"
    by (auto simp: generateSample_def)
  show "\<exists>sample. v = JObj [(rootName, sample)]
             \<and> (\<forall>fs. definition = JObj fs \<longrightarrow>
                    (case member fs rootName of
                       Own sub \<Rightarrow>
                         sub \<noteq> JUndefined \<and> sub \<noteq> JNull \<and> generateSample' sub = Inr sample
                     | Inherited m \<Rightarrow> sample = JObj []
                     | Missing \<Rightarrow> False))"
  proof (cases "definition")
    case (JObj fs)
    show ?thesis
    proof (cases "member fs rootName")
      case (Own sub)
      with r JObj show ?thesis
        by (cases sub) (auto simp: generateSample_def split: sum.splits)
    qed (use r JObj in \<open>auto simp: generateSample_def\<close>)
  qed (use r in \<open>auto simp: generateSample_def split: sum.splits if_splits\<close>)
next
  assume "\<not> hasOwnProperty fs rootName"
  then show "generateSample rootName (JObj fs)
          = (if rootName \<in> set objectPrototype then Inr (JObj [(rootName, JObj [])])
             else Inl TypeError)"
    by (simp add: generateSample_def member_def hasOwnProperty_def)
qed

theorem C10_generateSample_needs_subdefinition_witness:
  "generateSample ''person''
       (JObj [(''person'', JObj [(''name$type'', JStr ''string''), (''age$type'', JStr ''int'')])])
     = Inr (JObj [(''person'', JObj [(''name'', JStr '' ''), (''age'', JNum (IntNum 0))])])
   \<and> member [(''person'', JObj [(''name$type'', JStr ''string''), (''age$type'', JStr ''int'')])]
         ''person''
     = Own (JObj [(''name$type'', JStr ''string''), (''age$type'', JStr ''int'')])
   \<and> generateSample ''animal''
       (JObj [(''person'', JObj [(''name$type'', JStr ''string''), (''age$type'', JStr ''int'')])])
     = Inl TypeError
   \<and> generateSample ''valueOf''
       (JObj [(''person'', JObj [(''name$type'', JStr ''string''), (''age$type'', JStr ''int'')])])
     = Inr (JObj [(''valueOf'', JObj [])])"
proof -
  let ?fs = "[(''person'', JObj [(''name$type'', JStr ''string''), (''age$type'', JStr ''int'')])]"
  have r: "generateSample ''person'' (JObj ?fs)
     = Inr (JObj [(''person'', JObj [(''name'', JStr '' ''), (''age'', JNum (IntNum 0))])])"
    by code_simp
  have n: "\<not> hasOwnProperty ?fs ''animal''" "\<not> hasOwnProperty ?fs ''valueOf''"
    by (simp_all add: hasOwnProperty_def)
  have m: "member ?fs ''person''
             = Own (JObj [(''name$type'', JStr ''string''), (''age$type'', JStr ''int'')])"
    by (simp add: member_def)
  have p: "''animal'' \<notin> set objectPrototype" "''valueOf'' \<in> set objectPrototype"
    by (simp_all add: objectPrototype_def)
  show ?thesis
    using C10_generateSample_needs_subdefinition
            [of "''person''" "JObj ?fs"
                "JObj [(''person'', JObj [(''name'', JStr '' ''), (''age'', JNum (IntNum 0))])]"]
          C10_generateSample_needs_subdefinition [of "''animal''" "JObj ?fs" JUndefined ?fs]
          C10_generateSample_needs_subdefinition [of "''valueOf''" "JObj ?fs" JUndefined ?fs]
          r n m p
    by simp
qed

section \<open>The bound on type references\<close>

lemma resolveType_follows:
  assumes "followSimpleTypes n t0 mx0 mn0 tlm ens = Some (t, mx, mn)" and "i + n \<le> 2"
  shows "resolveType i t0 mx0 mn0 tlm ens
           = (case loopPass t mx mn tlm ens of
                Throws e \<Rightarrow> Inl e
              | Stops r \<Rightarrow> Inr (r, mx, mn)
              | Follows t' mx' mn' \<Rightarrow> resolveType (Suc (i + n)) t' mx' mn' tlm ens)"
  using assms
proof (induction n arbitrary: i t0 mx0 mn0)
  case 0
  then show ?case
    by (subst resolveType.simps) (simp split: pass.splits)
next
  case (Suc n)
  from Suc.prems(1) obtain t1 mx1 mn1
    where first: "loopPass t0 mx0 mn0 tlm ens = Follows t1 mx1 mn1"
      and rest: "followSimpleTypes n t1 mx1 mn1 tlm ens = Some (t, mx, mn)"
    by (auto split: pass.splits)
  from Suc.prems(2) have "Suc i + n \<le> 2"
    by simp
  from Suc.IH [OF rest this] first Suc.prems(2) show ?case
    by (subst resolveType.simps) (simp split: pass.splits)
qed

lemma resolveType_third:
  "resolveType (Suc (Suc (Suc 0))) t mx mn tlm ens = Inl TypeNestedMoreThan3Levels"
  by (subst resolveType.simps) simp

lemma resolveType_too_deep:
  assumes "followSimpleTypes 3 t0 mx0 mn0 tlm ens \<noteq> None"
  shows "resolveType 0 t0 mx0 mn0 tlm ens = Inl TypeNestedMoreThan3Levels"
proof -
  from assms obtain t1 mx1 mn1 t2 mx2 mn2 t3 mx3 mn3
    where "loopPass t0 mx0 mn0 tlm ens = Follows t1 mx1 mn1"
      and "loopPass t1 mx1 mn1 tlm ens = Follows t2 mx2 mn2"
      and last: "loopPass t2 mx2 mn2 tlm ens = Follows t3 mx3 mn3"
    by (auto simp: numeral_3_eq_3 split: pass.splits)
  then have "followSimpleTypes 2 t0 mx0 mn0 tlm ens = Some (t2, mx2, mn2)"
    by (simp add: numeral_2_eq_2)
  from resolveType_follows [OF this, of 0] last show ?thesis
    by (simp add: resolveType_third)
qed

lemma loopPass_Stops:
  assumes "loopPass t a b tlm ens = Stops r"
  shows "(\<exists>name. r = Primitive name \<and> namespaceLookup t ens = Inr (name, JStr xsdNamespace))
         \<or> (\<exists>sub. r = Reference ''complexType'' sub) \<or> (\<exists>sub. r = Reference ''element'' sub)"
  using assms unfolding loopPass_def Let_def
  by (auto split: sum.splits prod.splits if_splits jsval.splits)

lemma element_of_named_type:
  assumes "extractAndAddNamespaces element nss = Inr ens"
    and "reverseAliases [] ens = Inr aliases"
    and "toStringJS (propOf element ''$name'') = Inr name"
    and "truthy (propOf element ''$type'') \<or> truthy (propOf element ''simpleType'')"
    and "extractType element = Inr (t0, mx0, mn0)"
    and "t0 \<notin> set [JStr ''object'', JStr ''any'', JStr ''empty'']"
  shows "elementToDefinition (Suc fuel) ''element'' element tn qualified tlm nss
           = (case resolveType 0 t0 mx0 mn0 tlm ens of
                Inl e \<Rightarrow> Inl e
              | Inr (r, mx, mn) \<Rightarrow>
                  (case r of
                     Primitive p \<Rightarrow>
                       finishElement element name [(name @ ''$type'', JStr p)] JUndefined
                         aliases tn qualified mx mn
                   | Reference kind sub \<Rightarrow>
                       (case elementToDefinition fuel kind sub tn qualified tlm ens of
                          Inl e \<Rightarrow> Inl e
                        | Inr subResult \<Rightarrow>
                            finishElement element name [] subResult aliases tn qualified mx mn)
                   | NotResolved \<Rightarrow>
                       finishElement element name [] JUndefined aliases tn qualified mx mn))"
proof -
  from assms(6) have "t0 \<noteq> JStr ''object''" "t0 \<noteq> JStr ''any''" "t0 \<noteq> JStr ''empty''"
    by simp_all
  with assms(1-5) show ?thesis
    by (subst elementToDefinition.simps) simp
qed

text \<open>
  C7 (as stated, refuted). The claim: the resolution follows at most 3 indirections
  through simpleType declarations, and a chain within that bound ends at a primitive of
  the XSD namespace. The element \<^verbatim>\<open>age\<close> has the type \<^verbatim>\<open>A\<close>; the simple types \<^verbatim>\<open>A\<close>,
  \<^verbatim>\<open>B\<close> and \<^verbatim>\<open>C\<close> lead in three indirections to \<^verbatim>\<open>xs:int\<close>, and the compilation fails
  with "Type reference nested more than 3 levels": the loop counts its passes, and the
  pass that would find \<^verbatim>\<open>xs:int\<close> is the fourth.
\<close>

theorem C7_three_simple_types_fail:
  "followSimpleTypes 3 (JStr ''tns:A'') (IntNum 0) (IntNum 0) chainLookup chainNamespaces
     = Some (JStr ''xs:int'', IntNum 0, IntNum 0)
   \<and> loopPass (JStr ''xs:int'') (IntNum 0) (IntNum 0) chainLookup chainNamespaces
     = Stops (Primitive ''int'')
   \<and> elementToDefinition 5 ''element'' (chainElement ''tns:A'') (JStr ''urn:t'') False
         chainLookup chainNamespaces
     = Inl TypeNestedMoreThan3Levels
   \<and> generateDefinition 5 (XmlText (chainSchema ''tns:A'')) ''xsd''
         [(''xmlns:tns'', JStr ''urn:t'')] False
     = Inl TypeNestedMoreThan3Levels"
  by code_simp

text \<open>
  C7 (amended). From the type that an element names, in its \<^verbatim>\<open>type\<close> attribute or
  as the base or item type of its inline simple type, the resolution follows at most 2
  indirections through simpleType declarations of the lookup table: the loop makes
  three passes, and the pass on the type that the element names is the first. For such
  an element:

    \<^item> when 3 indirections can be followed from its type, whatever they lead to, the
      compilation fails with "Type reference nested more than 3 levels";
    \<^item> when \<open>n \<le> 2\<close> indirections lead to a type of the XSD namespace, the element gets
      that primitive as its type, with the length facets read on the way;
    \<^item> when they lead to a complexType or an element of the lookup table, that
      declaration is compiled by the recursive call and its result becomes the
      element's definition;
    \<^item> when the pass after them throws, the compilation fails with that error.
\<close>

theorem C7_at_most_two_indirections:
  assumes "extractAndAddNamespaces element nss = Inr ens"
    and "reverseAliases [] ens = Inr aliases"
    and "toStringJS (propOf element ''$name'') = Inr name"
    and "truthy (propOf element ''$type'') \<or> truthy (propOf element ''simpleType'')"
    and "extractType element = Inr (t0, mx0, mn0)"
    and "t0 \<notin> set [JStr ''object'', JStr ''any'', JStr ''empty'']"
  shows "(followSimpleTypes 3 t0 mx0 mn0 tlm ens \<noteq> None \<longrightarrow>
            elementToDefinition (Suc fuel) ''element'' element tn qualified tlm nss
              = Inl TypeNestedMoreThan3Levels)
       \<and> (n \<le> 2 \<and> followSimpleTypes n t0 mx0 mn0 tlm ens = Some (t, mx, mn) \<longrightarrow>
            (case loopPass t mx mn tlm ens of
               Throws e \<Rightarrow>
                 elementToDefinition (Suc fuel) ''element'' element tn qualified tlm nss = Inl e
             | Stops r \<Rightarrow>
                 (case r of
                    Primitive p \<Rightarrow>
                      namespaceLookup t ens = Inr (p, JStr xsdNamespace)
                      \<and> elementToDefinition (Suc fuel) ''element'' element tn qualified tlm nss
                          = finishElement element name [(name @ ''$type'', JStr p)] JUndefined
                              aliases tn qualified mx mn
                  | Reference kind sub \<Rightarrow>
                      kind \<in> set [''complexType'', ''element'']
                      \<and> elementToDefinition (Suc fuel) ''element'' element tn qualified tlm nss
                          = (case elementToDefinition fuel kind sub tn qualified tlm ens of
                               Inl e \<Rightarrow> Inl e
                             | Inr subResult \<Rightarrow>
                                 finishElement element name [] subResult aliases tn qualified
                                   mx mn)
                  | NotResolved \<Rightarrow> False)
             | Follows t' mx' mn' \<Rightarrow> followSimpleTypes (Suc n) t0 mx0 mn0 tlm ens \<noteq> None))"
proof (intro conjI impI)
  note compiled = element_of_named_type [OF assms, of fuel tn "qualified" tlm]
  assume "followSimpleTypes 3 t0 mx0 mn0 tlm ens \<noteq> None"
  then show "elementToDefinition (Suc fuel) ''element'' element tn qualified tlm nss
            = Inl TypeNestedMoreThan3Levels"
    by (simp add: compiled resolveType_too_deep del: elementToDefinition.simps)
next
  note compiled = element_of_named_type [OF assms, of fuel tn "qualified" tlm]
  assume "n \<le> 2 \<and> followSimpleTypes n t0 mx0 mn0 tlm ens = Some (t, mx, mn)"
  then have n: "0 + n \<le> 2" and chain: "followSimpleTypes n t0 mx0 mn0 tlm ens = Some (t, mx, mn)"
    by simp_all
  note passes = resolveType_follows [OF chain n]
  show "case loopPass t mx mn tlm ens of
               Throws e \<Rightarrow>
                 elementToDefinition (Suc fuel) ''element'' element tn qualified tlm nss = Inl e
             | Stops r \<Rightarrow>
                 (case r of
                    Primitive p \<Rightarrow>
                      namespaceLookup t ens = Inr (p, JStr xsdNamespace)
                      \<and> elementToDefinition (Suc fuel) ''element'' element tn qualified tlm nss
                          = finishElement element name [(name @ ''$type'', JStr p)] JUndefined
                              aliases tn qualified mx mn
                  | Reference kind sub \<Rightarrow>
                      kind \<in> set [''complexType'', ''element'']
                      \<and> elementToDefinition (Suc fuel) ''element'' element tn qualified tlm nss
                          = (case elementToDefinition fuel kind sub tn qualified tlm ens of
                               Inl e \<Rightarrow> Inl e
                             | Inr subResult \<Rightarrow>
                                 finishElement element name [] subResult aliases tn qualified
                                   mx mn)
                  | NotResolved \<Rightarrow> False)
             | Follows t' mx' mn' \<Rightarrow> followSimpleTypes (Suc n) t0 mx0 mn0 tlm ens \<noteq> None"
  proof (cases "loopPass t mx mn tlm ens")
    case (Throws e)
    then show ?thesis
      by (simp add: compiled passes del: elementToDefinition.simps)
  next
    case (Stops r)
    from loopPass_Stops [OF Stops] Stops show ?thesis
      by (auto simp: compiled passes simp del: elementToDefinition.simps)
  next
    case (Follows t' mx' mn')
    have "followSimpleTypes (Suc n) t0 mx0 mn0 tlm ens = Some (t', mx', mn')"
      using chain Follows
    proof (induction n arbitrary: t0 mx0 mn0)
      case 0
      then show ?case
        by simp
    next
      case (Suc n)
      then show ?case
        by (cases "loopPass t0 mx0 mn0 tlm ens") simp_all
    qed
    with Follows show ?thesis
      by simp
  qed
qed

theorem C7_at_most_two_indirections_witness:
  "elementToDefinition 5 ''element'' (chainElement ''tns:B'') (JStr ''urn:t'') False
       chainLookup chainNamespaces
     = Inr (JObj [(''age$type'', JStr ''int'')])
   \<and> generateDefinition 5 (XmlText (chainSchema ''tns:B'')) ''xsd''
         [(''xmlns:tns'', JStr ''urn:t'')] False
     = Inr (JObj [(''age$type'', JStr ''int''), (''age$type$namespace'', JStr ''tns'')],
            XmlText (chainSchema ''tns:B''))
   \<and> elementToDefinition 5 ''element'' (chainElement ''tns:Q'') (JStr ''urn:t'') False
       chainLookup chainNamespaces
     = Inr (JObj [(''age'', JObj [(''nick$type'', JStr ''string'')]),
                  (''age$order'', JArr [JStr ''nick''])])
   \<and> elementToDefinition 4 ''complexType'' (getProp chainLookup ''#xmlns:tns:P'')
       (JStr ''urn:t'') False chainLookup chainNamespaces
     = Inr (JObj [(''$order'', JArr [JStr ''nick'']), (''nick$type'', JStr ''string'')])
   \<and> elementToDefinition 5 ''element'' (chainElement ''tns:A'') (JStr ''urn:t'') False
       chainLookup chainNamespaces
     = Inl TypeNestedMoreThan3Levels"
proof -
  let ?aliases = "[(''http://www.w3.org/2001/XMLSchema'', ''xmlns:xs''), (''urn:t'', ''xmlns:tns'')]"
  have around: "extractAndAddNamespaces (chainElement r) chainNamespaces = Inr chainNamespaces"
      "reverseAliases [] chainNamespaces = Inr ?aliases"
      "toStringJS (propOf (chainElement r) ''$name'') = Inr ''age''" for r
    by (simp_all add: chainElement_def chainNamespaces_def extractAndAddNamespaces_def
        objectKeys_def dollarXmlns_def xmlnsAlias_def propOf_def getProp_def xsdNamespace_def
        assign_def)
  have typed: "truthy (propOf (chainElement ''tns:B'') ''$type'')
                 \<or> truthy (propOf (chainElement ''tns:B'') ''simpleType'')"
      "truthy (propOf (chainElement ''tns:Q'') ''$type'')
         \<or> truthy (propOf (chainElement ''tns:Q'') ''simpleType'')"
      "truthy (propOf (chainElement ''tns:A'') ''$type'')
         \<or> truthy (propOf (chainElement ''tns:A'') ''simpleType'')"
      "extractType (chainElement ''tns:B'') = Inr (JStr ''tns:B'', IntNum 0, IntNum 0)"
      "extractType (chainElement ''tns:Q'') = Inr (JStr ''tns:Q'', IntNum 0, IntNum 0)"
      "extractType (chainElement ''tns:A'') = Inr (JStr ''tns:A'', IntNum 0, IntNum 0)"
    by code_simp+
  have fresh: "JStr ''tns:B'' \<notin> set [JStr ''object'', JStr ''any'', JStr ''empty'']"
      "JStr ''tns:Q'' \<notin> set [JStr ''object'', JStr ''any'', JStr ''empty'']"
      "JStr ''tns:A'' \<notin> set [JStr ''object'', JStr ''any'', JStr ''empty'']"
    by simp_all
  have chains:
      "followSimpleTypes 2 (JStr ''tns:B'') (IntNum 0) (IntNum 0) chainLookup chainNamespaces
         = Some (JStr ''xs:int'', IntNum 0, IntNum 0)"
      "followSimpleTypes (Suc 0) (JStr ''tns:Q'') (IntNum 0) (IntNum 0) chainLookup chainNamespaces
         = Some (JStr ''tns:P'', IntNum 0, IntNum 0)"
      "followSimpleTypes 3 (JStr ''tns:A'') (IntNum 0) (IntNum 0) chainLookup chainNamespaces
         = Some (JStr ''xs:int'', IntNum 0, IntNum 0)"
    by code_simp+
  have ends:
      "loopPass (JStr ''xs:int'') (IntNum 0) (IntNum 0) chainLookup chainNamespaces
         = Stops (Primitive ''int'')"
      "loopPass (JStr ''tns:P'') (IntNum 0) (IntNum 0) chainLookup chainNamespaces
         = Stops (Reference ''complexType'' (getProp chainLookup ''#xmlns:tns:P''))"
    by code_simp+
  have finished:
      "finishElement (chainElement ''tns:B'') ''age'' [(''age$type'', JStr ''int'')]
         JUndefined ?aliases (JStr ''urn:t'') False (IntNum 0) (IntNum 0)
         = Inr (JObj [(''age$type'', JStr ''int'')])"
      "elementToDefinition 4 ''complexType'' (getProp chainLookup ''#xmlns:tns:P'')
         (JStr ''urn:t'') False chainLookup chainNamespaces
         = Inr (JObj [(''$order'', JArr [JStr ''nick'']), (''nick$type'', JStr ''string'')])"
      "finishElement (chainElement ''tns:Q'') ''age'' []
         (JObj [(''$order'', JArr [JStr ''nick'']), (''nick$type'', JStr ''string'')])
         ?aliases (JStr ''urn:t'') False (IntNum 0) (IntNum 0)
         = Inr (JObj [(''age'', JObj [(''nick$type'', JStr ''string'')]),
                      (''age$order'', JArr [JStr ''nick''])])"
    by code_simp+
  have whole: "generateDefinition 5 (XmlText (chainSchema ''tns:B'')) ''xsd''
         [(''xmlns:tns'', JStr ''urn:t'')] False
     = Inr (JObj [(''age$type'', JStr ''int''), (''age$type$namespace'', JStr ''tns'')],
            XmlText (chainSchema ''tns:B''))"
    by code_simp
  from C7_at_most_two_indirections
         [OF around typed(1) typed(4) fresh(1), of chainLookup 4 "JStr ''urn:t''" False 2
            "JStr ''xs:int''" "IntNum 0" "IntNum 0"]
  have b: "elementToDefinition 5 ''element'' (chainElement ''tns:B'') (JStr ''urn:t'') False
       chainLookup chainNamespaces = Inr (JObj [(''age$type'', JStr ''int'')])"
    by (simp add: chains ends finished del: elementToDefinition.simps followSimpleTypes.simps)
  from C7_at_most_two_indirections
         [OF around typed(2) typed(5) fresh(2), of chainLookup 4 "JStr ''urn:t''" False "Suc 0"
            "JStr ''tns:P''" "IntNum 0" "IntNum 0"]
  have q: "elementToDefinition 5 ''element'' (chainElement ''tns:Q'') (JStr ''urn:t'') False
       chainLookup chainNamespaces
     = Inr (JObj [(''age'', JObj [(''nick$type'', JStr ''string'')]),
                  (''age$order'', JArr [JStr ''nick''])])"
    by (simp add: chains ends finished del: elementToDefinition.simps followSimpleTypes.simps)
  from C7_at_most_two_indirections
         [OF around typed(3) typed(6) fresh(3), of chainLookup 4 "JStr ''urn:t''" False 0
            "JStr ''tns:A''" "IntNum 0" "IntNum 0"]
  have a: "elementToDefinition 5 ''element'' (chainElement ''tns:A'') (JStr ''urn:t'') False
       chainLookup chainNamespaces = Inl TypeNestedMoreThan3Levels"
    by (simp add: chains del: elementToDefinition.simps followSimpleTypes.simps)
  from b q a whole finished(2) show ?thesis
    by simp
qed

section \<open>The inference's effect on its argument\<close>

lemma map_fst_setProp:
  "k \<in> fst ` set fs \<Longrightarrow> map fst (setProp fs k v) = map fst fs"
  by (induction fs) auto

lemma map_of_setProp:
  "map_of (setProp fs k v) k' = (if k' = k then Some v else map_of fs k')"
  by (induction fs) auto

lemma map_fst_deleteProp:
  "map fst (deleteProp fs k) = filter (\<lambda>x. x \<noteq> k) (map fst fs)"
  by (induction fs) (auto simp: deleteProp_def)

lemma map_of_deleteProp:
  "map_of (deleteProp fs k) k' = (if k' = k then None else map_of fs k')"
  by (induction fs) (auto simp: deleteProp_def)

lemma generateDefinitionKeys_step:
  assumes "generateDefinitionKeys g ((key, value) # rest) d obj = Inr (d', obj')"
  shows "\<exists>d1 obj1. generateDefinitionKeys g rest d1 obj1 = Inr (d', obj')
           \<and> ((decorated key \<and> obj1 = obj)
              \<or> (\<not> decorated key \<and> value = JArr [] \<and> obj1 = obj)
              \<or> (\<not> decorated key
                  \<and> (\<exists>x others x'. value = JArr (x # others)
                         \<and> obj1 = setProp obj key (JArr (x' # others))))
              \<or> (\<not> decorated key \<and> typeofObject value \<and> \<not> isArray value
                  \<and> (\<exists>dd left. generateDefinitionXml g value = Inr (dd, left)
                         \<and> obj1 = setProp obj key left))
              \<or> (\<not> decorated key \<and> \<not> typeofObject value \<and> obj1 = deleteProp obj key))"
proof (cases "decorated key")
  case True
  with assms show ?thesis
    by auto
next
  case False
  note nd = this
  show ?thesis
  proof (cases "typeofObject value")
    case False
    with nd assms show ?thesis
      by (cases "value") (auto simp: typeofObject_def)
  next
    case True
    note ob = this
    show ?thesis
    proof (cases "value")
      case (JArr xs)
      show ?thesis
      proof (cases xs)
        case Nil
        with JArr nd ob assms show ?thesis
          by auto
      next
        case (Cons x others)
        with JArr nd ob assms show ?thesis
          by (auto split: sum.splits prod.splits)
      qed
    next
      case (JObj fs)
      with nd ob assms show ?thesis
        by (auto simp: isArray_def split: sum.splits prod.splits)
    qed (use nd ob assms in \<open>auto simp: typeofObject_def isArray_def split: sum.splits prod.splits\<close>)
  qed
qed


lemma generateDefinitionKeys_effect:
  assumes "generateDefinitionKeys g rest d obj = Inr (d', obj')"
    and "distinct (map fst rest)"
    and "\<forall>(k, v) \<in> set rest. map_of obj k = Some v"
  shows "map fst obj' = filter (\<lambda>k. case map_of rest k of
                                        None \<Rightarrow> True
                                      | Some v \<Rightarrow> decorated k \<or> typeofObject v)
                            (map fst obj)
    \<and> (\<forall>k. map_of rest k = None \<longrightarrow> map_of obj' k = map_of obj k)
    \<and> (\<forall>k v. map_of rest k = Some v \<longrightarrow> decorated k \<longrightarrow> map_of obj' k = Some v)
    \<and> (\<forall>k sub. map_of rest k = Some (JObj sub) \<longrightarrow> \<not> decorated k \<longrightarrow>
           (\<exists>dd left. generateDefinitionXml g (JObj sub) = Inr (dd, left)
                     \<and> map_of obj' k = Some left))
    \<and> (\<forall>k x others. map_of rest k = Some (JArr (x # others)) \<longrightarrow> \<not> decorated k \<longrightarrow>
           (\<exists>x'. map_of obj' k = Some (JArr (x' # others))))"
  using assms
proof (induction rest arbitrary: d obj)
  case Nil
  then show ?case
    by simp
next
  case (Cons entry rest)
  obtain key "value" where entry: "entry = (key, value)"
    by (cases entry)
  have run: "generateDefinitionKeys g ((key, value) # rest) d obj = Inr (d', obj')"
    and dist: "distinct (map fst rest)" and fresh: "key \<notin> fst ` set rest"
    and here: "map_of obj key = Some value"
    and later: "\<forall>(k, v) \<in> set rest. map_of obj k = Some v"
    using Cons.prems entry by auto
  have inobj: "key \<in> fst ` set obj"
    using map_of_SomeD [OF here] by force
  have norest: "map_of rest key = None"
    using fresh by (simp add: map_of_eq_None_iff)
  from generateDefinitionKeys_step [OF run]
  obtain d1 obj1 where cont: "generateDefinitionKeys g rest d1 obj1 = Inr (d', obj')"
    and eff: "(decorated key \<and> obj1 = obj)
              \<or> (\<not> decorated key \<and> value = JArr [] \<and> obj1 = obj)
              \<or> (\<not> decorated key
                  \<and> (\<exists>x others x'. value = JArr (x # others)
                         \<and> obj1 = setProp obj key (JArr (x' # others))))
              \<or> (\<not> decorated key \<and> typeofObject value \<and> \<not> isArray value
                  \<and> (\<exists>dd left. generateDefinitionXml g value = Inr (dd, left)
                         \<and> obj1 = setProp obj key left))
              \<or> (\<not> decorated key \<and> \<not> typeofObject value \<and> obj1 = deleteProp obj key)"
    by blast
  have other: "map_of obj1 k = map_of obj k" if "k \<noteq> key" for k
    using eff that by (auto simp: map_of_setProp map_of_deleteProp)
  have later1: "\<forall>(k, v) \<in> set rest. map_of obj1 k = Some v"
  proof clarify
    fix k v assume kv: "(k, v) \<in> set rest"
    then have "k \<noteq> key" using fresh by force
    then show "map_of obj1 k = Some v" using other later kv by auto
  qed
  note IH = Cons.IH [OF cont dist later1]
  have sp: "map fst (setProp obj key v) = map fst obj" for v
    using inobj by (rule map_fst_setProp)
  have keys1: "map fst obj1 = filter (\<lambda>k. k \<noteq> key \<or> decorated key \<or> typeofObject value)
                                (map fst obj)"
    using eff
  proof (elim disjE conjE exE)
    assume "decorated key" "obj1 = obj"
    then show ?thesis by simp
  next
    assume "value = JArr []" "obj1 = obj"
    then show ?thesis by (simp add: typeofObject_def)
  next
    fix x others x'
    assume "value = JArr (x # others)" "obj1 = setProp obj key (JArr (x' # others))"
    then show ?thesis by (simp add: typeofObject_def sp)
  next
    fix dd left
    assume "typeofObject value" "obj1 = setProp obj key left"
    then show ?thesis by (simp add: sp)
  next
    assume "\<not> decorated key" "\<not> typeofObject value" "obj1 = deleteProp obj key"
    then show ?thesis by (simp add: map_fst_deleteProp)
  qed
  let ?kept = "\<lambda>r k. case map_of r k of None \<Rightarrow> True | Some v \<Rightarrow> decorated k \<or> typeofObject v"
  have kept: "?kept (entry # rest) k
                = ((k \<noteq> key \<or> decorated key \<or> typeofObject value) \<and> ?kept rest k)" for k
    using norest by (auto simp: entry)
  have c1: "map fst obj' = filter (?kept (entry # rest)) (map fst obj)"
  proof -
    have "map fst obj' = filter (?kept rest) (map fst obj1)"
      using IH by simp
    also have "\<dots> = filter (\<lambda>k. (k \<noteq> key \<or> decorated key \<or> typeofObject value) \<and> ?kept rest k)
                        (map fst obj)"
      by (simp add: keys1 conj_commute)
    also have "\<dots> = filter (?kept (entry # rest)) (map fst obj)"
      by (rule filter_cong) (simp_all only: kept)
    finally show ?thesis .
  qed
  have c2: "map_of obj' k = map_of obj k" if "map_of (entry # rest) k = None" for k
  proof -
    from that have "k \<noteq> key" "map_of rest k = None"
      by (auto simp: entry split: if_splits)
    then show ?thesis
      using IH other by simp
  qed
  have c3: "map_of obj' k = Some v" if "map_of (entry # rest) k = Some v" "decorated k" for k v
  proof (cases "k = key")
    case True
    with that have "v = value" "decorated key"
      by (auto simp: entry)
    with eff have "obj1 = obj"
      by auto
    with IH norest here True \<open>v = value\<close> show ?thesis
      by simp
  next
    case False
    with that have "map_of rest k = Some v"
      by (auto simp: entry)
    with IH that show ?thesis
      by simp
  qed
  have c4: "\<exists>dd left. generateDefinitionXml g (JObj sub) = Inr (dd, left)
                     \<and> map_of obj' k = Some left"
    if "map_of (entry # rest) k = Some (JObj sub)" "\<not> decorated k" for k sub
  proof (cases "k = key")
    case True
    with that have v: "value = JObj sub" "\<not> decorated key"
      by (auto simp: entry)
    with eff obtain dd left where "generateDefinitionXml g (JObj sub) = Inr (dd, left)"
      and "obj1 = setProp obj key left"
      by (auto simp: typeofObject_def)
    with IH norest True show ?thesis
      by (simp add: map_of_setProp)
  next
    case False
    with that have "map_of rest k = Some (JObj sub)"
      by (auto simp: entry)
    with IH that show ?thesis
      by simp
  qed
  have c5: "\<exists>x'. map_of obj' k = Some (JArr (x' # others))"
    if "map_of (entry # rest) k = Some (JArr (x # others))" "\<not> decorated k" for k x others
  proof (cases "k = key")
    case True
    with that have v: "value = JArr (x # others)" "\<not> decorated key"
      by (auto simp: entry)
    with eff obtain x' where "obj1 = setProp obj key (JArr (x' # others))"
      by (auto simp: typeofObject_def isArray_def)
    with IH norest True show ?thesis
      by (simp add: map_of_setProp)
  next
    case False
    with that have "map_of rest k = Some (JArr (x # others))"
      by (auto simp: entry)
    with IH that show ?thesis
      by simp
  qed
  show ?case
    using c1 c2 c3 c4 c5 by blast
qed


text \<open>
  C9 (as stated, refuted). The claim: every key bound to a non-empty scalar is deleted
  from the object passed in, and keys bound to empty values are kept. The key \<^verbatim>\<open>a\<close>
  of \<^verbatim>\<open>{a: ''}\<close> is deleted: \<^verbatim>\<open>delete obj[key]\<close> (line 475) follows the whole chain
  of tests, the empty case included. The key of \<^verbatim>\<open>{b$namespace: 'ns'}\<close>, bound to a
  non-empty scalar, is kept: keys with a \<^verbatim>\<open>$\<close> are copied, not inferred from.
\<close>

theorem C9_empty_text_is_deleted:
  "generateDefinition 0 (Value (JObj [(''a'', JStr [])])) ''xml'' [] False
     = Inr (JObj [], Value (JObj []))
   \<and> generateDefinition 0 (Value (JObj [(''b$namespace'', JStr ''ns'')])) ''xml'' [] False
     = Inr (JObj [(''b$namespace'', JStr ''ns'')], Value (JObj [(''b$namespace'', JStr ''ns'')]))"
  by code_simp

text \<open>
  C9 (amended). \<^verbatim>\<open>generateDefinition\<close> in \<^verbatim>\<open>xml\<close> mode changes the object passed to
  it. A key is decorated when its first \<^verbatim>\<open>$\<close> comes after its first character
  (\<^verbatim>\<open>key.indexOf('$') > 0\<close>). When the call returns, the keys of the object are, in
  their order, the decorated keys and the keys bound to objects or arrays: every other
  key, bound to a string (empty or not) or to \<^verbatim>\<open>undefined\<close>, is deleted. A decorated
  key keeps its value; the object under a key that is not decorated is left as the same
  inference leaves that object; of an array only the first element can change.
\<close>

theorem C9_inference_deletes_texts:
  assumes "generateDefinition fuel (Value (JObj fs)) ''xml'' nss g = Inr (definition, after)"
    and "distinct (map fst fs)"
  shows "\<exists>fs'. after = Value (JObj fs')
     \<and> map fst fs' = filter (\<lambda>k. decorated k \<or> typeofObject (getProp fs k)) (map fst fs)
     \<and> (\<forall>k. decorated k \<longrightarrow> getProp fs' k = getProp fs k)
     \<and> (\<forall>k sub. \<not> decorated k \<longrightarrow> map_of fs k = Some (JObj sub) \<longrightarrow>
           (\<exists>dd. generateDefinitionXml g (JObj sub) = Inr (dd, getProp fs' k)))
     \<and> (\<forall>k x others. \<not> decorated k \<longrightarrow> map_of fs k = Some (JArr (x # others)) \<longrightarrow>
           (\<exists>x'. getProp fs' k = JArr (x' # others)))"
proof -
  from assms(1) obtain d fs' where run: "generateDefinitionKeys g fs [] fs = Inr (d, fs')"
    and after: "after = Value (JObj fs')"
    by (auto simp: generateDefinition_def split: sum.splits prod.splits)
  have self: "\<forall>(k, v) \<in> set fs. map_of fs k = Some v"
    using assms(2) by auto
  note eff = generateDefinitionKeys_effect [OF run assms(2) self]
  have keys: "map fst fs' = filter (\<lambda>k. decorated k \<or> typeofObject (getProp fs k)) (map fst fs)"
  proof -
    have "map fst fs' = filter (\<lambda>k. case map_of fs k of None \<Rightarrow> True
                                     | Some v \<Rightarrow> decorated k \<or> typeofObject v) (map fst fs)"
      using eff by simp
    also have "\<dots> = filter (\<lambda>k. decorated k \<or> typeofObject (getProp fs k)) (map fst fs)"
      by (rule filter_cong) (auto simp: getProp_def map_of_eq_None_iff split: option.splits)
    finally show ?thesis .
  qed
  have dec: "getProp fs' k = getProp fs k" if "decorated k" for k
  proof (cases "map_of fs k")
    case None
    with eff have "map_of fs' k = map_of fs k" by simp
    then show ?thesis by (simp add: getProp_def)
  next
    case (Some v)
    with eff that have "map_of fs' k = Some v" by simp
    with Some show ?thesis by (simp add: getProp_def)
  qed
  have sub: "\<exists>dd. generateDefinitionXml g (JObj sub) = Inr (dd, getProp fs' k)"
    if "\<not> decorated k" "map_of fs k = Some (JObj sub)" for k sub
  proof -
    from eff that obtain dd left where "generateDefinitionXml g (JObj sub) = Inr (dd, left)"
      and "map_of fs' k = Some left"
      by blast
    then show ?thesis by (auto simp: getProp_def)
  qed
  have arr: "\<exists>x'. getProp fs' k = JArr (x' # others)"
    if "\<not> decorated k" "map_of fs k = Some (JArr (x # others))" for k x others
  proof -
    from eff that obtain x' where "map_of fs' k = Some (JArr (x' # others))"
      by blast
    then show ?thesis by (auto simp: getProp_def)
  qed
  show ?thesis
    using after keys dec sub arr by blast
qed

theorem C9_inference_deletes_texts_witness:
  "generateDefinition 0
       (Value (JObj [(''a'', JStr []), (''b'', JStr ''12''), (''c$namespace'', JStr ''ns''),
                     (''d'', JObj [(''e'', JStr ''true'')]),
                     (''f'', JArr [JObj [(''g'', JStr ''x'')], JObj [(''g'', JStr ''y'')]])]))
       ''xml'' [] False
     = Inr (JObj [(''b$type'', JStr ''int''), (''c$namespace'', JStr ''ns''),
                  (''d'', JObj [(''e$type'', JStr ''boolean'')]),
                  (''f$type'', JArr []), (''f'', JObj [(''g$type'', JStr ''string'')])],
            Value (JObj [(''c$namespace'', JStr ''ns''), (''d'', JObj []),
                         (''f'', JArr [JObj [], JObj [(''g'', JStr ''y'')]])]))
   \<and> (\<exists>fs'. JObj [(''c$namespace'', JStr ''ns''), (''d'', JObj []),
                   (''f'', JArr [JObj [], JObj [(''g'', JStr ''y'')]])] = JObj fs'
            \<and> map fst fs' = [''c$namespace'', ''d'', ''f''])"
proof -
  let ?fs = "[(''a'', JStr []), (''b'', JStr ''12''), (''c$namespace'', JStr ''ns''),
              (''d'', JObj [(''e'', JStr ''true'')]),
              (''f'', JArr [JObj [(''g'', JStr ''x'')], JObj [(''g'', JStr ''y'')]])]"
  have r: "generateDefinition 0 (Value (JObj ?fs)) ''xml'' [] False
     = Inr (JObj [(''b$type'', JStr ''int''), (''c$namespace'', JStr ''ns''),
                  (''d'', JObj [(''e$type'', JStr ''boolean'')]),
                  (''f$type'', JArr []), (''f'', JObj [(''g$type'', JStr ''string'')])],
            Value (JObj [(''c$namespace'', JStr ''ns''), (''d'', JObj []),
                         (''f'', JArr [JObj [], JObj [(''g'', JStr ''y'')]])]))"
    by code_simp
  have d: "distinct (map fst ?fs)"
    by simp
  have k: "filter (\<lambda>k. decorated k \<or> typeofObject (getProp ?fs k)) (map fst ?fs)
             = [''c$namespace'', ''d'', ''f'']"
    by (simp add: decorated_def typeofObject_def getProp_def)
  from C9_inference_deletes_texts [OF r d] k
  have "\<exists>fs'. JObj [(''c$namespace'', JStr ''ns''), (''d'', JObj []),
                   (''f'', JArr [JObj [], JObj [(''g'', JStr ''y'')]])] = JObj fs'
            \<and> map fst fs' = [''c$namespace'', ''d'', ''f'']"
    by auto
  with r show ?thesis
    by blast
qed

section \<open>Namespace transparency\<close>

lemma convertFromXsdType_undefined: "convertFromXsdType JUndefined v = Inr (JStr v)"
  by (auto simp: convertFromXsdType_def truthy_def)

lemma xmlnsAlias_ns: "xmlnsAlias ''xmlns:ns'' = Some ''ns''"
  by (simp add: xmlnsAlias_def)

lemmas parse_nsDocument =
  fromXml_def fromXml'_def nsDocument_def initialParser_def startElement_def endElement_def
  localName_def aliasOf_def attributeSchema_def truthy_def propOf_def getProp_def convertFromXsdType_undefined xmlnsAlias_ns
  foreignNamespace_def looseNotEqual_def definitionValueOf_def handleTag_def
  member_def assign_def ownProperty_def objectPrototype_def
  hasOwnProperty_def isArray_def saveOrder_def storeAttributes_def deleteProp_def
  attachOrder_def assignValue_def convertValue_def writeBack_def resultOf_def trim_def Let_def

lemma alias_facts:
  assumes "t \<noteq> []" and "list_all (\<lambda>c. c \<notin> set [CHR 0x0A, CHR 0x0D, CHR ''$'']) t"
    and "t \<noteq> ''__proto__''"
  shows "xmlnsAlias (''xmlns:'' @ t) = Some t" and "t \<noteq> ''ns$type''" and "''ns$type'' \<noteq> t"
    and "''__proto__'' \<noteq> t"
proof -
  show "''__proto__'' \<noteq> t"
    using assms(3) by (rule not_sym)
  have "list_all (\<lambda>c. c \<noteq> CHR 0x0A \<and> c \<noteq> CHR 0x0D) t"
    using assms(2) by (simp add: list_all_iff)
  then show "xmlnsAlias (''xmlns:'' @ t) = Some t"
    using assms(1) by (simp add: xmlnsAlias_def)
  show "t \<noteq> ''ns$type''"
  proof
    assume "t = ''ns$type''"
    with assms(2) show False by simp
  qed
  then show "''ns$type'' \<noteq> t"
    by (rule not_sym)
qed

lemma nsDocument_same_url:
  assumes "xmlnsAlias (''xmlns:'' @ t) = Some t" "t \<noteq> []" "t \<noteq> ''ns$type''" "''ns$type'' \<noteq> t"
    "t \<noteq> ''__proto__''" "''__proto__'' \<noteq> t"
  shows "fromXml nsDocument (nsDefinition t ''urn:x'') il cv
           = Inr (JObj [(''a'', JObj [(''b'', JStr [])])])"
  using assms by (simp add: parse_nsDocument nsDefinition_def)

lemma nsDocument_other_url_inline:
  assumes "xmlnsAlias (''xmlns:'' @ t) = Some t" "t \<noteq> []" "t \<noteq> ''ns$type''" "''ns$type'' \<noteq> t"
    "t \<noteq> ''__proto__''" "''__proto__'' \<noteq> t"
    and "u \<noteq> ''urn:x''" "''urn:x'' \<noteq> u"
  shows "fromXml nsDocument (nsDefinition t u) True cv
           = Inr (JObj [(''a'', JObj [(''$xmlns:ns'', JStr ''urn:x''),
                                     (''b'', JObj [(''namespace$'', JStr ''ns'')])])])"
  using assms by (simp add: parse_nsDocument nsDefinition_def)

lemma nsDocument_other_url_separate:
  assumes "xmlnsAlias (''xmlns:'' @ t) = Some t" "t \<noteq> []" "t \<noteq> ''ns$type''" "''ns$type'' \<noteq> t"
    "t \<noteq> ''__proto__''" "''__proto__'' \<noteq> t"
    and "u \<noteq> ''urn:x''" "''urn:x'' \<noteq> u"
  shows "fromXml nsDocument (nsDefinition t u) False cv
           = Inr (JObj [(''a$attributes'', JObj [(''xmlns:ns'', JStr ''urn:x'')]),
                        (''a'', JObj [(''b$namespace'', JStr ''ns''), (''b'', JStr [])])])"
  using assms by (simp add: parse_nsDocument nsDefinition_def)

lemma nsDocument_child_same_url_inline:
  assumes "xmlnsAlias (''xmlns:'' @ t) = Some t" "t \<noteq> []" "t \<noteq> ''ns$type''" "''ns$type'' \<noteq> t"
    "t \<noteq> ''__proto__''" "''__proto__'' \<noteq> t"
  shows "fromXml nsDocument (nsDefinitionAtChild t ''urn:x'') True cv
           = Inr (JObj [(''a'', JObj [(''$xmlns:ns'', JStr ''urn:x''), (''b'', JStr [])])])"
  using assms by (simp add: parse_nsDocument nsDefinitionAtChild_def)

lemma nsDocument_child_same_url_separate:
  assumes "xmlnsAlias (''xmlns:'' @ t) = Some t" "t \<noteq> []" "t \<noteq> ''ns$type''" "''ns$type'' \<noteq> t"
    "t \<noteq> ''__proto__''" "''__proto__'' \<noteq> t"
  shows "fromXml nsDocument (nsDefinitionAtChild t ''urn:x'') False cv
           = Inr (JObj [(''a$attributes'', JObj [(''xmlns:ns'', JStr ''urn:x'')]),
                        (''a'', JObj [(''b'', JStr [])])])"
  using assms by (simp add: parse_nsDocument nsDefinitionAtChild_def)

lemma nsDocument_child_other_url_inline:
  assumes "xmlnsAlias (''xmlns:'' @ t) = Some t" "t \<noteq> []" "t \<noteq> ''ns$type''" "''ns$type'' \<noteq> t"
    "t \<noteq> ''__proto__''" "''__proto__'' \<noteq> t"
    and "u \<noteq> ''urn:x''" "''urn:x'' \<noteq> u"
  shows "fromXml nsDocument (nsDefinitionAtChild t u) True cv
           = Inr (JObj [(''a'', JObj [(''$xmlns:ns'', JStr ''urn:x''),
                                     (''b'', JObj [(''namespace$'', JStr ''ns'')])])])"
  using assms by (simp add: parse_nsDocument nsDefinitionAtChild_def)

lemma nsDocument_child_other_url_separate:
  assumes "xmlnsAlias (''xmlns:'' @ t) = Some t" "t \<noteq> []" "t \<noteq> ''ns$type''" "''ns$type'' \<noteq> t"
    "t \<noteq> ''__proto__''" "''__proto__'' \<noteq> t"
    and "u \<noteq> ''urn:x''" "''urn:x'' \<noteq> u"
  shows "fromXml nsDocument (nsDefinitionAtChild t u) False cv
           = Inr (JObj [(''a$attributes'', JObj [(''xmlns:ns'', JStr ''urn:x'')]),
                        (''a'', JObj [(''b$namespace'', JStr ''ns''), (''b'', JStr [])])])"
  using assms by (simp add: parse_nsDocument nsDefinitionAtChild_def)

text \<open>
  C6 (as stated, refuted). The claim: against a definition that binds the namespace
  alias of \<^verbatim>\<open>b\<close> to \<^verbatim>\<open>urn:x\<close>, \<^verbatim>\<open><a xmlns:ns="urn:x"><ns:b/></a>\<close> gets no namespace
  marker on \<^verbatim>\<open>b\<close>. With the alias \<^verbatim>\<open>__proto__\<close> the assignment of line 143 does not
  store the URL, line 148 reads the object that every object inherits under that name,
  and \<^verbatim>\<open>b\<close> gets the marker although the definition binds its alias to \<^verbatim>\<open>urn:x\<close>.
\<close>

theorem C6_marker_for_alias_proto:
  "fromXml nsDocument (nsDefinition ''__proto__'' ''urn:x'') True True
     = Inr (JObj [(''a'', JObj [(''b'', JObj [(''namespace$'', JStr ''ns'')])])])
   \<and> fromXml nsDocument (nsDefinition ''__proto__'' ''urn:x'') False True
     = Inr (JObj [(''a'', JObj [(''b$namespace'', JStr ''ns''), (''b'', JStr [])])])"
  by code_simp

text \<open>
  C6 (amended). \<^verbatim>\<open><a xmlns:ns="urn:x"><ns:b/></a>\<close> is parsed against a definition that
  gives \<^verbatim>\<open>b\<close> the namespace alias \<open>t\<close> and binds \<open>t\<close>, in the namespace attributes of
  \<^verbatim>\<open>a\<close> or of \<^verbatim>\<open>b\<close>, to the URL \<open>u\<close>; \<open>t\<close> is any alias but \<^verbatim>\<open>__proto__\<close> (not empty,
  without line terminator or \<^verbatim>\<open>$\<close>). If \<open>u\<close> is \<^verbatim>\<open>urn:x\<close> the output has no namespace
  marker on \<^verbatim>\<open>b\<close>. If \<open>u\<close> is another URL the marker is \<^verbatim>\<open>ns\<close>: the entry
  \<^verbatim>\<open>namespace$\<close> of \<^verbatim>\<open>b\<close>'s object with inline attributes, the entry \<^verbatim>\<open>b$namespace\<close> of
  the enclosing object otherwise.
\<close>

theorem C6_namespace_marker:
  assumes "t \<noteq> []" and "list_all (\<lambda>c. c \<notin> set [CHR 0x0A, CHR 0x0D, CHR ''$'']) t"
    and "t \<noteq> ''__proto__''"
  shows "fromXml nsDocument (nsDefinition t u) inlineAttributes convertTypes =
     Inr (if u = ''urn:x'' then JObj [(''a'', JObj [(''b'', JStr [])])]
          else if inlineAttributes then
            JObj [(''a'', JObj [(''$xmlns:ns'', JStr ''urn:x''),
                               (''b'', JObj [(''namespace$'', JStr ''ns'')])])]
          else
            JObj [(''a$attributes'', JObj [(''xmlns:ns'', JStr ''urn:x'')]),
                  (''a'', JObj [(''b$namespace'', JStr ''ns''), (''b'', JStr [])])])
   \<and> fromXml nsDocument (nsDefinitionAtChild t u) inlineAttributes convertTypes =
     Inr (if inlineAttributes then
            JObj [(''a'', JObj [(''$xmlns:ns'', JStr ''urn:x''),
                               (''b'', if u = ''urn:x'' then JStr []
                                       else JObj [(''namespace$'', JStr ''ns'')])])]
          else
            JObj [(''a$attributes'', JObj [(''xmlns:ns'', JStr ''urn:x'')]),
                  (''a'', JObj (if u = ''urn:x'' then [(''b'', JStr [])]
                                else [(''b$namespace'', JStr ''ns''), (''b'', JStr [])]))])"
proof -
  note f = alias_facts [OF assms]
  note a = f(1) assms(1) f(2) f(3) assms(3) f(4)
  show ?thesis
  proof (cases "u = ''urn:x''")
    case True
    show ?thesis
      unfolding True
      by (cases inlineAttributes)
         (simp_all only: nsDocument_same_url [OF a] nsDocument_child_same_url_inline [OF a]
            nsDocument_child_same_url_separate [OF a] if_True if_False simp_thms)
  next
    case False
    then have u: "u \<noteq> ''urn:x''" "''urn:x'' \<noteq> u"
      by auto
    show ?thesis
      by (cases inlineAttributes)
         (simp_all only: nsDocument_other_url_inline [OF a u]
            nsDocument_other_url_separate [OF a u] nsDocument_child_other_url_inline [OF a u]
            nsDocument_child_other_url_separate [OF a u] u if_True if_False simp_thms)
  qed
qed

theorem C6_namespace_marker_witness:
  "fromXml nsDocument (nsDefinition ''t'' ''urn:x'') True True
     = Inr (JObj [(''a'', JObj [(''b'', JStr [])])])
   \<and> fromXml nsDocument (nsDefinition ''t'' ''urn:y'') True True
     = Inr (JObj [(''a'', JObj [(''$xmlns:ns'', JStr ''urn:x''),
                               (''b'', JObj [(''namespace$'', JStr ''ns'')])])])
   \<and> fromXml nsDocument (nsDefinition ''t'' ''urn:y'') False True
     = Inr (JObj [(''a$attributes'', JObj [(''xmlns:ns'', JStr ''urn:x'')]),
                  (''a'', JObj [(''b$namespace'', JStr ''ns''), (''b'', JStr [])])])"
  using C6_namespace_marker [of "''t''" "''urn:x''" True True]
        C6_namespace_marker [of "''t''" "''urn:y''" True True]
        C6_namespace_marker [of "''t''" "''urn:y''" False True]
  by simp

section \<open>Attribute defaults\<close>

lemma filterAttributes_fate:
  assumes "filterAttributes schema ns urls rest acc = Inr out"
    and "distinct (map fst rest)"
    and "\<forall>(k, v) \<in> set rest. map_of acc k = Some (JStr v)"
  shows "map fst out
           = filter (\<lambda>k. case map_of rest k of
                           None \<Rightarrow> True
                         | Some v \<Rightarrow> definitionValueOf schema ns urls k v \<noteq> Inr (JStr v))
               (map fst acc)
     \<and> (\<forall>k. map_of rest k = None \<longrightarrow> map_of out k = map_of acc k)
     \<and> (\<forall>k v. map_of rest k = Some v \<longrightarrow>
           (\<exists>d. definitionValueOf schema ns urls k v = Inr d
              \<and> (JStr v = d \<longrightarrow> map_of out k = None)
              \<and> (JStr v \<noteq> d \<longrightarrow> truthy (propOf schema (k @ ''$type'')) \<longrightarrow>
                   (\<exists>c. convertFromXsdType (propOf schema (k @ ''$type'')) v = Inr c
                        \<and> map_of out k = Some c))
              \<and> (JStr v \<noteq> d \<longrightarrow> \<not> truthy (propOf schema (k @ ''$type'')) \<longrightarrow>
                   map_of out k = Some (JStr v))))"
  using assms
proof (induction rest arbitrary: acc)
  case Nil
  then show ?case
    by simp
next
  case (Cons entry rest)
  obtain key "value" where entry: "entry = (key, value)"
    by (cases entry)
  let ?type = "propOf schema (key @ ''$type'')"
  have dist: "distinct (map fst rest)" and fresh: "key \<notin> fst ` set rest"
    and here: "map_of acc key = Some (JStr value)"
    and later: "\<forall>(k, v) \<in> set rest. map_of acc k = Some (JStr v)"
    using Cons.prems(2,3) entry by auto
  have inacc: "key \<in> fst ` set acc"
    using map_of_SomeD [OF here] by force
  have norest: "map_of rest key = None"
    using fresh by (simp add: map_of_eq_None_iff)
  from Cons.prems(1) obtain d where declared: "definitionValueOf schema ns urls key value = Inr d"
    unfolding entry by (auto split: sum.splits)
  from Cons.prems(1) obtain acc1 where cont: "filterAttributes schema ns urls rest acc1 = Inr out"
    and eff: "(JStr value = d \<and> acc1 = deleteProp acc key)
              \<or> (JStr value \<noteq> d \<and> truthy ?type
                  \<and> (\<exists>c. convertFromXsdType ?type value = Inr c \<and> acc1 = setProp acc key c))
              \<or> (JStr value \<noteq> d \<and> \<not> truthy ?type \<and> acc1 = acc)"
    unfolding entry by (auto simp: declared split: if_splits sum.splits)
  have other: "map_of acc1 k = map_of acc k" if "k \<noteq> key" for k
    using eff that by (auto simp: map_of_setProp map_of_deleteProp)
  have later1: "\<forall>(k, v) \<in> set rest. map_of acc1 k = Some (JStr v)"
  proof clarify
    fix k v assume kv: "(k, v) \<in> set rest"
    then have "k \<noteq> key" using fresh by force
    then show "map_of acc1 k = Some (JStr v)" using other later kv by auto
  qed
  note IH = Cons.IH [OF cont dist later1]
  let ?kept = "\<lambda>r k. case map_of r k of
                         None \<Rightarrow> True
                       | Some v \<Rightarrow> definitionValueOf schema ns urls k v \<noteq> Inr (JStr v)"
  have sp: "map fst (setProp acc key c) = map fst acc" for c
    using inacc by (rule map_fst_setProp)
  have keys1: "map fst acc1 = filter (\<lambda>k. k \<noteq> key \<or> JStr value \<noteq> d) (map fst acc)"
    using eff by (auto simp: sp map_fst_deleteProp)
  have c1: "map fst out = filter (?kept (entry # rest)) (map fst acc)"
  proof -
    have "map fst out = filter (?kept rest) (map fst acc1)"
      using IH by simp
    also have "\<dots> = filter (\<lambda>k. (k \<noteq> key \<or> JStr value \<noteq> d) \<and> ?kept rest k) (map fst acc)"
      by (simp add: keys1 conj_commute)
    also have "\<dots> = filter (?kept (entry # rest)) (map fst acc)"
      by (rule filter_cong) (use norest declared in \<open>auto simp: entry\<close>)
    finally show ?thesis .
  qed
  have c2: "map_of out k = map_of acc k" if "map_of (entry # rest) k = None" for k
  proof -
    from that have "k \<noteq> key" "map_of rest k = None"
      by (auto simp: entry split: if_splits)
    then show ?thesis
      using IH other by simp
  qed
  have atkey: "map_of out key = map_of acc1 key"
    using IH norest by simp
  have c3: "\<exists>d. definitionValueOf schema ns urls k v = Inr d
              \<and> (JStr v = d \<longrightarrow> map_of out k = None)
              \<and> (JStr v \<noteq> d \<longrightarrow> truthy (propOf schema (k @ ''$type'')) \<longrightarrow>
                   (\<exists>c. convertFromXsdType (propOf schema (k @ ''$type'')) v = Inr c
                        \<and> map_of out k = Some c))
              \<and> (JStr v \<noteq> d \<longrightarrow> \<not> truthy (propOf schema (k @ ''$type'')) \<longrightarrow>
                   map_of out k = Some (JStr v))"
    if "map_of (entry # rest) k = Some v" for k v
  proof (cases "k = key")
    case True
    with that have v: "v = value"
      by (simp add: entry)
    have "(JStr value = d \<longrightarrow> map_of acc1 key = None)
              \<and> (JStr value \<noteq> d \<longrightarrow> truthy ?type \<longrightarrow>
                   (\<exists>c. convertFromXsdType ?type value = Inr c \<and> map_of acc1 key = Some c))
              \<and> (JStr value \<noteq> d \<longrightarrow> \<not> truthy ?type \<longrightarrow> map_of acc1 key = Some (JStr value))"
      using eff here by (auto simp: map_of_setProp map_of_deleteProp)
    with declared show ?thesis
      unfolding True v atkey by blast
  next
    case False
    with that have "map_of rest k = Some v"
      by (auto simp: entry)
    with IH show ?thesis
      by blast
  qed
  show ?case
    using c1 c2 c3 by blast
qed

lemma startElement_cases:
  assumes "startElement inl st q attrs = Inr st'"
  obtains d ds urls defNs foreign out obj1 obj2 where
    "definitions st = d # ds"
    and "foreignNamespace (aliasOf q) (extractNamespaces (namespaces st) attrs) defNs
           (propOf d (localName q @ ''$namespace'')) = Inr foreign"
    and "filterAttributes (attributeSchema d (localName q))
           (extractNamespaces (namespaces st) attrs) urls attrs
           (map (\<lambda>(k, v). (k, JStr v)) attrs) = Inr out"
    and "namespaces st' = extractNamespaces (namespaces st) attrs"
    and "definitionNamespaceUrls st' = urls"
    and "definitionNamespaces st' = defNs"
    and "names st' = localName q # names st"
    and "definitions st' = (if truthy (propOf d (localName q)) then propOf d (localName q)
                            else JObj []) # definitions st"
    and "currentValue st' = []"
    and "currentType st' = propOf d (localName q @ ''$type'')"
    and "currentObject st' =
           (if out \<noteq> [] \<and> inl
            then foldl (\<lambda>obj (k, v). setProp obj (CHR ''$'' # k) v)
                   (case foreign of
                      Some a \<Rightarrow> if inl then [(''namespace$'', JStr a)] else []
                    | None \<Rightarrow> []) out
            else (case foreign of
                    Some a \<Rightarrow> if inl then [(''namespace$'', JStr a)] else []
                  | None \<Rightarrow> []))"
    and "(if out \<noteq> [] \<and> \<not> inl
          then storeAttributes
                 (case foreign of
                    Some a \<Rightarrow>
                      if inl then currentObject st
                      else setProp (currentObject st) (localName q @ ''$namespace'') (JStr a)
                  | None \<Rightarrow> currentObject st)
                 (localName q) (propOf d (localName q @ ''$type'')) out
          else Inr (case foreign of
                      Some a \<Rightarrow>
                        if inl then currentObject st
                        else setProp (currentObject st) (localName q @ ''$namespace'') (JStr a)
                    | None \<Rightarrow> currentObject st)) = Inr obj1"
    and "handleTag obj1 (localName q) (propOf d (localName q @ ''$type'')) (currentObject st')
           = Inr obj2"
    and "objects st' = obj2 # objects st"
    and "orders st' = saveOrder (orders st) (length (names st)) (localName q) obj2"
proof -
  from assms obtain d ds where defs: "definitions st = d # ds"
    by (cases "definitions st") (auto simp: startElement_def)
  from assms show ?thesis
    unfolding startElement_def defs list.case Let_def
    apply (simp split: sum.splits prod.splits)
    apply (drule sym [of _ st'])
    apply (rule that [OF defs])
                 apply assumption
                apply assumption
               apply (simp_all add: defs)
    done
qed

lemma split_plain: "sep \<notin> set k \<Longrightarrow> split sep k = [k]"
  by (induction k) auto

lemma definitionValueOf_plain:
  "CHR '':'' \<notin> set k \<Longrightarrow> definitionValueOf schema ns urls k v = Inr (propOf schema k)"
  by (simp add: definitionValueOf_def split_plain)

lemma definitionValueOf_xmlns:
  "split CHR '':'' k = ''xmlns'' # p1 # others \<Longrightarrow> v \<notin> set objectPrototype \<Longrightarrow>
   definitionValueOf schema ns urls k v
     = Inr (case map_of urls v of
              Some a \<Rightarrow> if a \<noteq> [] then JStr v else JStr []
            | None \<Rightarrow> JStr [])"
  by (simp add: definitionValueOf_def member_def split: option.splits)

lemma definitionValueOf_prefixed:
  "split CHR '':'' k = p0 # p1 # others \<Longrightarrow> p0 \<noteq> ''xmlns'' \<Longrightarrow> map_of ns p0 = Some u \<Longrightarrow>
   map_of urls u = None \<longrightarrow> u \<notin> set objectPrototype \<Longrightarrow>
   definitionValueOf schema ns urls k v
     = Inr (case map_of urls u of
              Some a \<Rightarrow> if a \<noteq> [] then propOf schema (a @ '':'' @ p1) else JStr []
            | None \<Rightarrow> JStr [])"
  by (simp add: definitionValueOf_def member_def split: option.splits)

lemma inline_attributes:
  "distinct (map fst out) \<Longrightarrow>
   map_of (foldl (\<lambda>obj (k, v). setProp obj (CHR ''$'' # k) v) obj out) (CHR ''$'' # key)
     = (case map_of out key of Some v \<Rightarrow> Some v | None \<Rightarrow> map_of obj (CHR ''$'' # key))"
proof (induction out arbitrary: obj)
  case Nil
  then show ?case
    by simp
next
  case (Cons entry out)
  obtain k v where entry: "entry = (k, v)"
    by (cases entry)
  from Cons.prems have fresh: "map_of out k = None" and dist: "distinct (map fst out)"
    by (auto simp: entry map_of_eq_None_iff)
  show ?case
    using Cons.IH [OF dist, of "setProp obj (CHR ''$'' # k) v"] fresh
    by (auto simp: entry map_of_setProp split: option.splits)
qed

lemma separate_attributes:
  assumes "storeAttributes obj name type out = Inr obj1"
    and "handleTag obj1 name type child = Inr obj2"
  shows "\<exists>older. getProp obj2 (name @ ''$attributes'') = JObj out
               \<or> getProp obj2 (name @ ''$attributes'') = JArr (older @ [JObj out])"
proof -
  have other: "getProp obj2 (name @ ''$attributes'') = getProp obj1 (name @ ''$attributes'')"
    using assms(2)
    by (auto simp: handleTag_def getProp_def map_of_setProp
        split: sum.splits if_splits jsval.splits)
  let ?stored = "getProp obj1 (name @ ''$attributes'')"
  have "?stored = JObj out \<or> ?stored = JArr ([] @ [JObj out])
        \<or> ?stored = JArr ([getProp obj (name @ ''$attributes'')] @ [JObj out])
        \<or> (\<exists>xs. ?stored = JArr (xs @ [JObj out]))"
    using assms(1)
    by (cases "getProp obj (name @ ''$attributes'')")
      (auto simp: storeAttributes_def getProp_def ownProperty_def map_of_setProp
         split: option.splits if_splits)
  then have "\<exists>older. ?stored = JObj out \<or> ?stored = JArr (older @ [JObj out])"
    by blast
  then show ?thesis
    by (simp only: other)
qed

lemma wire_attribute:
  "distinct (map fst attrs) \<Longrightarrow> (k, v) \<in> set attrs \<Longrightarrow>
   map_of (map (\<lambda>(k, v). (k, JStr v)) attrs) k = Some (JStr v)"
  by (induction attrs) (auto simp: rev_image_eqI)

text \<open>
  C5 (as stated, refuted). The claim: an attribute is absent when its value equals the
  default that the definition declares for its name, else it is present and coerced by
  the \<^verbatim>\<open>$type\<close> that the attribute schema declares for it. In
  \<^verbatim>\<open><a xmlns:n="urn:q" n:x="5"/>\<close> the definition declares \<^verbatim>\<open>urn:q\<close> under the alias
  \<^verbatim>\<open>m\<close>, the default \<^verbatim>\<open>1\<close> for \<^verbatim>\<open>m:x\<close> and the type \<^verbatim>\<open>int\<close> for it. The declaration
  \<^verbatim>\<open>xmlns:n\<close> has no default under its name and is absent all the same: a namespace
  declaration is looked up by its URL (lines 164-168). The attribute \<^verbatim>\<open>n:x\<close> is compared
  with the default of \<^verbatim>\<open>m:x\<close> (lines 170-175), differs from it and is present, yet it
  stays the text \<^verbatim>\<open>5\<close>: the type is looked up under the name as the document writes
  it (line 184).
\<close>

theorem C5_declaration_dropped_by_url:
  "fromXml (Element ''a'' [(''xmlns:n'', ''urn:q''), (''n:x'', ''5'')] [])
     (JObj [(''a$attributes'',
             JObj [(''xmlns:m'', JStr ''urn:q''), (''m:x'', JStr ''1''),
                   (''m:x$type'', JStr ''int'')])])
     True True
   = Inr (JObj [(''a'', JObj [(''$n:x'', JStr ''5'')])])"
  by code_simp

text \<open>
  C5 (amended). For a start tag that the handler accepts, with attribute schema
  \<^verbatim>\<open>schema\<close>, and for each of its attributes \<^verbatim>\<open>k="v"\<close>, where \<^verbatim>\<open>out\<close> is the attribute
  object that is left after the filter (with inline attributes its entries are the
  \<^verbatim>\<open>$\<close>-prefixed entries of the element's object, otherwise a non-empty \<^verbatim>\<open>out\<close> is the
  value, or the last entry of the array, under \<^verbatim>\<open>name$attributes\<close>):

    \<^item> a name without a prefix is absent exactly when \<^verbatim>\<open>v\<close> is the string that the
      schema holds under \<^verbatim>\<open>k\<close>; otherwise it is present, coerced by the type under
      \<^verbatim>\<open>k$type\<close> when that is set and else with the text \<^verbatim>\<open>v\<close>;
    \<^item> a namespace declaration \<^verbatim>\<open>xmlns:p\<close> with a URL that is not empty and not the name
      of an inherited property is absent exactly when the definition has declared
      that URL, under whichever alias;
    \<^item> a name \<^verbatim>\<open>p0:p1\<close> whose prefix the document binds to a URL that the definition
      declares under the alias \<^verbatim>\<open>a\<close> is absent exactly when \<^verbatim>\<open>v\<close> is the string that
      the schema holds under \<^verbatim>\<open>a:p1\<close>; otherwise it is present, and coerced as above
      when the document writes the definition's alias; with a URL that the definition
      does not declare (and that is not the name of an inherited property), and a
      value that is not empty, it is present.
\<close>

theorem C5_attribute_defaults:
  fixes st st' :: parser and inl :: bool and q k v :: string and attrs :: "(string \<times> string) list"
  defines "schema \<equiv> attributeSchema (hd (definitions st)) (localName q)"
  assumes start: "startElement inl st q attrs = Inr st'"
    and dist: "distinct (map fst attrs)"
    and attr: "(k, v) \<in> set attrs"
  shows "\<exists>out.
      (inl \<longrightarrow> (\<forall>key. map_of (currentObject st') (CHR ''$'' # key) = map_of out key))
    \<and> (\<not> inl \<longrightarrow> out \<noteq> [] \<longrightarrow>
         (\<exists>older. getProp (hd (objects st')) (localName q @ ''$attributes'') = JObj out
                \<or> getProp (hd (objects st')) (localName q @ ''$attributes'')
                     = JArr (older @ [JObj out])))
    \<and> (CHR '':'' \<notin> set k \<longrightarrow>
         (if JStr v = propOf schema k then map_of out k = None
          else \<exists>c. map_of out k = Some c
                 \<and> (if truthy (propOf schema (k @ ''$type''))
                     then convertFromXsdType (propOf schema (k @ ''$type'')) v = Inr c
                     else c = JStr v)))
    \<and> (\<forall>p1 others. split CHR '':'' k = ''xmlns'' # p1 # others \<longrightarrow>
         v \<noteq> [] \<longrightarrow> v \<notin> set objectPrototype \<longrightarrow>
         (map_of out k = None)
           = (\<exists>a. map_of (definitionNamespaceUrls st') v = Some a \<and> a \<noteq> []))
    \<and> (\<forall>p0 p1 others u. split CHR '':'' k = p0 # p1 # others \<longrightarrow> p0 \<noteq> ''xmlns'' \<longrightarrow>
         map_of (namespaces st') p0 = Some u \<longrightarrow>
         (case map_of (definitionNamespaceUrls st') u of
            None \<Rightarrow> v \<noteq> [] \<longrightarrow> u \<notin> set objectPrototype \<longrightarrow> map_of out k \<noteq> None
          | Some a \<Rightarrow>
              a \<noteq> [] \<longrightarrow>
              (if JStr v = propOf schema (a @ '':'' @ p1) then map_of out k = None
               else if k = a @ '':'' @ p1
               then \<exists>c. map_of out k = Some c
                      \<and> (if truthy (propOf schema (k @ ''$type''))
                          then convertFromXsdType (propOf schema (k @ ''$type'')) v = Inr c
                          else c = JStr v)
               else map_of out k \<noteq> None)))"
proof -
  from start obtain d ds foreign out obj1 obj2 where defs: "definitions st = d # ds"
    and filtered: "filterAttributes (attributeSchema d (localName q)) (namespaces st')
                     (definitionNamespaceUrls st') attrs
                     (map (\<lambda>(k, v). (k, JStr v)) attrs) = Inr out"
    and inline: "currentObject st' =
           (if out \<noteq> [] \<and> inl
            then foldl (\<lambda>obj (k, v). setProp obj (CHR ''$'' # k) v)
                   (case foreign of
                      Some a \<Rightarrow> if inl then [(''namespace$'', JStr a)] else []
                    | None \<Rightarrow> []) out
            else (case foreign of
                    Some a \<Rightarrow> if inl then [(''namespace$'', JStr a)] else []
                  | None \<Rightarrow> []))"
    and stored: "(if out \<noteq> [] \<and> \<not> inl
          then storeAttributes
                 (case foreign of
                    Some a \<Rightarrow>
                      if inl then currentObject st
                      else setProp (currentObject st) (localName q @ ''$namespace'') (JStr a)
                  | None \<Rightarrow> currentObject st)
                 (localName q) (propOf d (localName q @ ''$type'')) out
          else Inr (case foreign of
                      Some a \<Rightarrow>
                        if inl then currentObject st
                        else setProp (currentObject st) (localName q @ ''$namespace'') (JStr a)
                    | None \<Rightarrow> currentObject st)) = Inr obj1"
    and tagged: "handleTag obj1 (localName q) (propOf d (localName q @ ''$type''))
                   (currentObject st') = Inr obj2"
    and pushed: "objects st' = obj2 # objects st"
    by (rule startElement_cases) simp
  have schema: "schema = attributeSchema d (localName q)"
    by (simp add: schema_def defs)
  let ?ns = "namespaces st'" and ?urls = "definitionNamespaceUrls st'"
  let ?wire = "map (\<lambda>(k, v). (k, JStr v)) attrs"
  let ?present = "\<exists>c. map_of out k = Some c
                      \<and> (if truthy (propOf schema (k @ ''$type''))
                          then convertFromXsdType (propOf schema (k @ ''$type'')) v = Inr c
                          else c = JStr v)"
  have wire: "\<forall>(k, v) \<in> set attrs. map_of ?wire k = Some (JStr v)"
    using wire_attribute [OF dist] by blast
  note fate = filterAttributes_fate [OF filtered [folded schema] dist wire]
  have here: "map_of attrs k = Some v"
    using dist attr by simp
  have keys: "distinct (map fst out)"
  proof -
    have "map fst ?wire = map fst attrs"
      by (induction attrs) auto
    with dist have wired: "distinct (map fst ?wire)"
      by (simp only:)
    from fate have "\<exists>kept. map fst out = filter kept (map fst ?wire)"
      by blast
    with wired show ?thesis
      by (auto simp only: distinct_filter)
  qed
  from fate here
  obtain declared where declared: "definitionValueOf schema ?ns ?urls k v = Inr declared"
    and this_one: "(JStr v = declared \<longrightarrow> map_of out k = None)
           \<and> (JStr v \<noteq> declared \<longrightarrow>
                truthy (propOf schema (k @ ''$type'')) \<longrightarrow>
                (\<exists>c. convertFromXsdType (propOf schema (k @ ''$type'')) v = Inr c
                     \<and> map_of out k = Some c))
           \<and> (JStr v \<noteq> declared \<longrightarrow>
                \<not> truthy (propOf schema (k @ ''$type'')) \<longrightarrow> map_of out k = Some (JStr v))"
    by blast
  have dropped: "map_of out k = None" if "JStr v = declared"
    using this_one that by blast
  have kept: ?present if "JStr v \<noteq> declared"
  proof (cases "truthy (propOf schema (k @ ''$type''))")
    case True
    with this_one that
    obtain c where "convertFromXsdType (propOf schema (k @ ''$type'')) v = Inr c"
      and "map_of out k = Some c"
      by blast
    with True show ?thesis
      by simp
  next
    case False
    with this_one that have "map_of out k = Some (JStr v)"
      by blast
    with False show ?thesis
      by simp
  qed
  have 1: "inl \<longrightarrow> (\<forall>key. map_of (currentObject st') (CHR ''$'' # key) = map_of out key)"
  proof (intro impI allI)
    fix key assume inl
    show "map_of (currentObject st') (CHR ''$'' # key) = map_of out key"
    proof (cases "out = []")
      case True
      then show ?thesis
        by (simp add: inline split: option.splits)
    next
      case False
      then show ?thesis
        using \<open>inl\<close> by (simp add: inline inline_attributes [OF keys] split: option.splits)
    qed
  qed
  have 2: "\<not> inl \<longrightarrow> out \<noteq> [] \<longrightarrow>
         (\<exists>older. getProp (hd (objects st')) (localName q @ ''$attributes'') = JObj out
                \<or> getProp (hd (objects st')) (localName q @ ''$attributes'')
                     = JArr (older @ [JObj out]))"
  proof (intro impI)
    assume "\<not> inl" "out \<noteq> []"
    with stored have "storeAttributes
                 (case foreign of
                    Some a \<Rightarrow>
                      if inl then currentObject st
                      else setProp (currentObject st) (localName q @ ''$namespace'') (JStr a)
                  | None \<Rightarrow> currentObject st)
                 (localName q) (propOf d (localName q @ ''$type'')) out = Inr obj1"
      by simp
    from separate_attributes [OF this tagged]
    show "\<exists>older. getProp (hd (objects st')) (localName q @ ''$attributes'') = JObj out
                \<or> getProp (hd (objects st')) (localName q @ ''$attributes'')
                     = JArr (older @ [JObj out])"
      by (simp only: pushed list.sel)
  qed
  have 3: "CHR '':'' \<notin> set k \<longrightarrow>
         (if JStr v = propOf schema k then map_of out k = None else ?present)"
  proof
    assume "CHR '':'' \<notin> set k"
    then have "definitionValueOf schema ?ns ?urls k v = Inr (propOf schema k)"
      by (rule definitionValueOf_plain)
    with declared have d: "declared = propOf schema k"
      by simp
    show "if JStr v = propOf schema k then map_of out k = None else ?present"
    proof (cases "JStr v = propOf schema k")
      case True
      have "map_of out k = None"
        by (rule dropped) (simp only: d True)
      with True show ?thesis
        by simp
    next
      case False
      have ?present
        by (rule kept) (simp only: d False not_False_eq_True)
      with False show ?thesis
        by (simp only: if_False)
    qed
  qed
  have 4: "\<forall>p1 others. split CHR '':'' k = ''xmlns'' # p1 # others \<longrightarrow>
         v \<noteq> [] \<longrightarrow> v \<notin> set objectPrototype \<longrightarrow>
         (map_of out k = None) = (\<exists>a. map_of ?urls v = Some a \<and> a \<noteq> [])"
  proof (intro allI impI)
    fix p1 others assume parts: "split CHR '':'' k = ''xmlns'' # p1 # others" and v: "v \<noteq> []"
      and own: "v \<notin> set objectPrototype"
    from declared have "(JStr v = declared) = (\<exists>a. map_of ?urls v = Some a \<and> a \<noteq> [])"
      using v by (auto simp: definitionValueOf_xmlns [OF parts own] split: option.splits)
    then show "(map_of out k = None) = (\<exists>a. map_of ?urls v = Some a \<and> a \<noteq> [])"
      using dropped kept by (cases "JStr v = declared") auto
  qed
  have 5: "\<forall>p0 p1 others u. split CHR '':'' k = p0 # p1 # others \<longrightarrow> p0 \<noteq> ''xmlns'' \<longrightarrow>
         map_of ?ns p0 = Some u \<longrightarrow>
         (case map_of ?urls u of
            None \<Rightarrow> v \<noteq> [] \<longrightarrow> u \<notin> set objectPrototype \<longrightarrow> map_of out k \<noteq> None
          | Some a \<Rightarrow>
              a \<noteq> [] \<longrightarrow>
              (if JStr v = propOf schema (a @ '':'' @ p1) then map_of out k = None
               else if k = a @ '':'' @ p1 then ?present else map_of out k \<noteq> None))"
  proof (intro allI impI)
    fix p0 p1 others u
    assume parts: "split CHR '':'' k = p0 # p1 # others" and p0: "p0 \<noteq> ''xmlns''"
      and u: "map_of ?ns p0 = Some u"
    note value_of = definitionValueOf_prefixed [OF parts p0 u, of ?urls schema v]
    show "case map_of ?urls u of
            None \<Rightarrow> v \<noteq> [] \<longrightarrow> u \<notin> set objectPrototype \<longrightarrow> map_of out k \<noteq> None
          | Some a \<Rightarrow>
              a \<noteq> [] \<longrightarrow>
              (if JStr v = propOf schema (a @ '':'' @ p1) then map_of out k = None
               else if k = a @ '':'' @ p1 then ?present else map_of out k \<noteq> None)"
    proof (cases "map_of ?urls u")
      case None
      have "map_of out k \<noteq> None" if "v \<noteq> []" "u \<notin> set objectPrototype"
      proof -
        from value_of that(2) None declared have "declared = JStr []"
          by simp
        with that(1) have "JStr v \<noteq> declared"
          by simp
        from kept [OF this] show ?thesis
          by auto
      qed
      with None show ?thesis
        by simp
    next
      case (Some a)
      let ?fate = "if JStr v = propOf schema (a @ '':'' @ p1) then map_of out k = None
               else if k = a @ '':'' @ p1 then ?present else map_of out k \<noteq> None"
      have resolved: "a \<noteq> [] \<longrightarrow> ?fate"
      proof
        assume that: "a \<noteq> []"
        from value_of Some declared that have d: "declared = propOf schema (a @ '':'' @ p1)"
          by simp
        show ?fate
        proof (cases "JStr v = declared")
          case True
          from dropped [OF True] True show ?thesis
            by (simp add: d)
        next
          case False
          from kept [OF False] False show ?thesis
            by (auto simp: d)
        qed
      qed
      show ?thesis
        unfolding Some option.case by (rule resolved)
    qed
  qed
  show ?thesis
    by (rule exI [of _ out]) (intro conjI 1 2 3 4 5)
qed

theorem C5_attribute_defaults_witness:
  "\<exists>st'. startElement True
            (initialParser
               (JObj [(''a$attributes'',
                       JObj [(''xmlns:n'', JStr ''urn:q''), (''n:x'', JStr ''1''),
                             (''n:x$type'', JStr ''int''), (''n:y'', JStr ''1''),
                             (''x'', JStr ''1''), (''x$type'', JStr ''int''),
                             (''y'', JStr ''1'')])]))
            ''a''
            [(''xmlns:n'', ''urn:q''), (''n:x'', ''5''), (''n:y'', ''1''), (''x'', ''5''),
             (''y'', ''1'')]
          = Inr st'
        \<and> map_of (currentObject st') ''$xmlns:n'' = None
        \<and> map_of (currentObject st') ''$n:x'' = Some (JNum (IntNum 5))
        \<and> map_of (currentObject st') ''$n:y'' = None
        \<and> map_of (currentObject st') ''$x'' = Some (JNum (IntNum 5))
        \<and> map_of (currentObject st') ''$y'' = None
        \<and> fromXml (Element ''a''
                      [(''xmlns:n'', ''urn:q''), (''n:x'', ''5''), (''n:y'', ''1''),
                       (''x'', ''5''), (''y'', ''1'')] [])
              (JObj [(''a$attributes'',
                      JObj [(''xmlns:n'', JStr ''urn:q''), (''n:x'', JStr ''1''),
                            (''n:x$type'', JStr ''int''), (''n:y'', JStr ''1''),
                            (''x'', JStr ''1''), (''x$type'', JStr ''int''),
                            (''y'', JStr ''1'')])]) True True
            = Inr (JObj [(''a'', JObj [(''$n:x'', JNum (IntNum 5)),
                                       (''$x'', JNum (IntNum 5))])])"
proof -
  let ?schema = "JObj [(''xmlns:n'', JStr ''urn:q''), (''n:x'', JStr ''1''),
                       (''n:x$type'', JStr ''int''), (''n:y'', JStr ''1''),
                       (''x'', JStr ''1''), (''x$type'', JStr ''int''), (''y'', JStr ''1'')]"
  let ?D = "JObj [(''a$attributes'', ?schema)]"
  let ?A = "[(''xmlns:n'', ''urn:q''), (''n:x'', ''5''), (''n:y'', ''1''), (''x'', ''5''),
             (''y'', ''1'')]"
  let ?r = "startElement True (initialParser ?D) ''a'' ?A"
  let ?st = "projr ?r"
  have ok: "?r = Inr ?st"
    by code_simp
  have dist: "distinct (map fst ?A)"
    by simp
  have schema: "attributeSchema (hd (definitions (initialParser ?D))) (localName ''a'') = ?schema"
    by code_simp
  have ns: "namespaces ?st = [(''n'', ''urn:q'')]"
    by code_simp
  have urls: "definitionNamespaceUrls ?st = [(''urn:q'', ''n'')]"
    by code_simp
  have int5: "convertFromXsdType (JStr ''int'') ''5'' = Inr (JNum (IntNum 5))"
    by code_simp
  have parts: "split CHR '':'' ''xmlns:n'' = [''xmlns'', ''n'']"
    "split CHR '':'' ''n:x'' = [''n'', ''x'']" "split CHR '':'' ''n:y'' = [''n'', ''y'']"
    by code_simp+
  note facts = schema ns urls int5 parts propOf_def getProp_def truthy_def objectPrototype_def
  from C5_attribute_defaults [OF ok dist, of "''xmlns:n''" "''urn:q''"]
  have 1: "map_of (currentObject ?st) ''$xmlns:n'' = None"
    by (auto simp: facts)
  from C5_attribute_defaults [OF ok dist, of "''n:x''" "''5''"]
  have 2: "map_of (currentObject ?st) ''$n:x'' = Some (JNum (IntNum 5))"
    by (auto simp: facts)
  from C5_attribute_defaults [OF ok dist, of "''n:y''" "''1''"]
  have 3: "map_of (currentObject ?st) ''$n:y'' = None"
    by (auto simp: facts)
  from C5_attribute_defaults [OF ok dist, of "''x''" "''5''"]
  have 4: "map_of (currentObject ?st) ''$x'' = Some (JNum (IntNum 5))"
    by (auto simp: facts)
  from C5_attribute_defaults [OF ok dist, of "''y''" "''1''"]
  have 5: "map_of (currentObject ?st) ''$y'' = None"
    by (auto simp: facts)
  have whole: "fromXml (Element ''a'' ?A []) ?D True True
                 = Inr (JObj [(''a'', JObj [(''$n:x'', JNum (IntNum 5)),
                                            (''$x'', JNum (IntNum 5))])])"
    by code_simp
  from ok 1 2 3 4 5 whole show ?thesis
    by blast
qed

end
